theory Spec2Isabelle
  imports Main
begin

section \<open>Python values, exceptions and the process state\<close>

text \<open>
  The exceptions that can travel through the extraction code. Only \<open>TweepyException\<close>
  is ever caught (and printed), so only it carries its message.
\<close>

datatype exn =
    TweepyException string
  | TypeError
  | AttributeError
  | KeyError string
  | ValueError

text \<open>
  A cell of an input table: a string, or one of the two missing values pandas knows,
  \<open>None\<close> and \<open>NaN\<close>.
\<close>

datatype cell = CNone | CNaN | CStr string

text \<open>\<open>pd.notna\<close>: false on \<open>None\<close> and \<open>NaN\<close>, true on every string, the empty one included.\<close>

fun notna :: "cell \<Rightarrow> bool" where
  "notna CNone = False"
| "notna CNaN = False"
| "notna (CStr s) = True"

text \<open>\<open>str(x)\<close>, as an f-string formats a cell.\<close>

fun py_str :: "cell \<Rightarrow> string" where
  "py_str CNone = ''None''"
| "py_str CNaN = ''nan''"
| "py_str (CStr s) = s"

text \<open>An entry of an entity collection is an opaque dictionary.\<close>

type_synonym entity = "(string \<times> string) list"

text \<open>The values that occur as fields of a normalized record.\<close>

datatype pyval =
    PNone
  | PNaN
  | PStr string
  | PInt int
  | PBool bool
  | PDatetime int
  | PList "entity list"

fun of_cell :: "cell \<Rightarrow> pyval" where
  "of_cell CNone = PNone"
| "of_cell CNaN = PNaN"
| "of_cell (CStr s) = PStr s"

fun of_optional_str :: "string option \<Rightarrow> pyval" where
  "of_optional_str None = PNone"
| "of_optional_str (Some s) = PStr s"

section \<open>The objects of the remote API\<close>

text \<open>
  The author of a post and the post itself, with the attributes the extraction functions
  read. \<open>u_location\<close> and \<open>u_lang\<close> are nullable in the remote schema. \<open>lang\<close> is the
  language of the post itself; no extraction function reads it.
\<close>

record user =
  u_id_str :: string
  u_screen_name :: string
  u_verified :: bool
  u_followers_count :: int
  u_friends_count :: int
  u_location :: "string option"
  u_lang :: "string option"

record tweet =
  id_str :: string
  created_at :: int
  full_text :: string
  lang :: "string option"
  favorite_count :: int
  retweet_count :: int
  entities :: "(string \<times> entity list) list"
  user :: user

text \<open>\<open>d.get(k, [])\<close> on the entities dictionary.\<close>

definition get_default :: "(string \<times> entity list) list \<Rightarrow> string \<Rightarrow> entity list" where
  "get_default d k = (case map_of d k of None \<Rightarrow> [] | Some v \<Rightarrow> v)"

text \<open>
  The two endpoints a cursor is opened on, with their keyword arguments in the order
  the source passes them:
  \<open>User_timeline screen_name count tweet_mode exclude_replies include_rts\<close> and
  \<open>Search_tweets q lang tweet_mode result_type count until\<close>.
\<close>

datatype request =
    User_timeline cell int string bool bool
  | Search_tweets cell string string string int string

text \<open>
  What iterating a cursor delivers: an item, or an exception raised by the page request
  in progress. A list of events that ends without a failure is a cursor that is exhausted.
\<close>

datatype 'a event = Item 'a | Fails exn

record oauth_handler =
  consumer_key_of :: "string option"
  consumer_secret_of :: "string option"
  access_token_of :: "string option"
  access_token_secret_of :: "string option"

record tweepy_api =
  auth_of :: oauth_handler
  wait_on_rate_limit :: bool

text \<open>
  The client library and the remote service behind it are the environment of the program:
  the three constructors \<open>get_auth\<close> calls, each of which may raise; the stream of events
  a cursor delivers for a request, which may depend on the handle and on the cursors
  opened before; and the date at which the module was imported, the default of \<open>until\<close>.
\<close>

record tweepy =
  OAuthHandler :: "string option \<Rightarrow> string option \<Rightarrow> exn + oauth_handler"
  set_access_token :: "oauth_handler \<Rightarrow> string option \<Rightarrow> string option \<Rightarrow> exn + oauth_handler"
  API :: "oauth_handler \<Rightarrow> bool \<Rightarrow> exn + tweepy_api"
  remote :: "tweepy_api \<Rightarrow> (request \<times> int) list \<Rightarrow> request \<Rightarrow> tweet event list"
  today :: string

text \<open>
  The observable state of the process: the lines printed so far and the cursors opened
  so far, each with its request and its item limit.
\<close>

record world =
  stdout :: "string list"
  fetches :: "(request \<times> int) list"

definition py_print :: "string \<Rightarrow> world \<Rightarrow> world" where
  "py_print s w = w\<lparr>stdout := stdout w @ [s]\<rparr>"

definition open_cursor :: "request \<Rightarrow> int \<Rightarrow> world \<Rightarrow> world" where
  "open_cursor req limit w = w\<lparr>fetches := fetches w @ [(req, limit)]\<rparr>"

text \<open>
  \<open>Cursor(...).items(limit)\<close>: iteration stops once \<open>limit\<close> items have been delivered,
  so that nothing after them is requested; a failure ends it.
\<close>

fun items :: "int \<Rightarrow> 'a event list \<Rightarrow> 'a event list" where
  "items limit [] = []"
| "items limit (Item x # evs) = (if limit \<le> 0 then [] else Item x # items (limit - 1) evs)"
| "items limit (Fails e # evs) = (if limit \<le> 0 then [] else [Fails e])"

text \<open>
  A list comprehension \<open>[f(x) for x in it]\<close>: the first exception, of the iterator or of
  \<open>f\<close>, abandons the list built so far.
\<close>

fun comprehension :: "('a \<Rightarrow> exn + 'b) \<Rightarrow> 'a event list \<Rightarrow> exn + 'b list" where
  "comprehension f [] = Inr []"
| "comprehension f (Fails e # evs) = Inl e"
| "comprehension f (Item x # evs) =
     (case f x of
        Inl e \<Rightarrow> Inl e
      | Inr y \<Rightarrow> (case comprehension f evs of Inl e \<Rightarrow> Inl e | Inr ys \<Rightarrow> Inr (y # ys)))"

text \<open>
  \<open>try: return [...] except TweepyException as e: print(msg); print(e)\<close>: the handler
  falls off the end of the function, which then returns \<open>None\<close>; any other exception
  propagates.
\<close>

fun except_TweepyException ::
  "string \<Rightarrow> exn + 'b list \<Rightarrow> world \<Rightarrow> (exn + 'b list option) \<times> world" where
  "except_TweepyException msg (Inr ys) w = (Inr (Some ys), w)"
| "except_TweepyException msg (Inl (TweepyException e)) w = (Inr None, py_print e (py_print msg w))"
| "except_TweepyException msg (Inl e) w = (Inl e, w)"

section \<open>functions.py\<close>

fun except_auth :: "exn \<Rightarrow> world \<Rightarrow> (exn + tweepy_api option) \<times> world" where
  "except_auth (TweepyException e) w =
     (Inr None, py_print e (py_print ''Error authenticating with Twitter API'' w))"
| "except_auth e w = (Inl e, w)"

definition get_auth ::
  "tweepy \<Rightarrow> string option \<Rightarrow> string option \<Rightarrow> string option \<Rightarrow> string option \<Rightarrow> world
     \<Rightarrow> (exn + tweepy_api option) \<times> world" where
  "get_auth lib consumer_key consumer_secret access_token access_token_secret w =
     (case OAuthHandler lib consumer_key consumer_secret of
        Inl e \<Rightarrow> except_auth e w
      | Inr auth \<Rightarrow>
          (case set_access_token lib auth access_token access_token_secret of
             Inl e \<Rightarrow> except_auth e w
           | Inr auth' \<Rightarrow>
               (let w' = py_print ''Successfully authenticated with the Twitter API'' w
                in case API lib auth' True of
                     Inl e \<Rightarrow> except_auth e w'
                   | Inr handle \<Rightarrow> (Inr (Some handle), w'))))"

text \<open>\<open>tweet.user.location + ''\<close>: adding a string to \<open>None\<close> raises \<open>TypeError\<close>.\<close>

fun add_str :: "string option \<Rightarrow> string \<Rightarrow> exn + string" where
  "add_str None s = Inl TypeError"
| "add_str (Some l) s = Inr (l @ s)"

text \<open>The tuples of the four list comprehensions.\<close>

definition timeline_tuple :: "cell \<Rightarrow> cell \<Rightarrow> tweet \<Rightarrow> exn + pyval list" where
  "timeline_tuple screen_name user_type t =
     (case add_str (u_location (user t)) '''' of
        Inl e \<Rightarrow> Inl e
      | Inr loc \<Rightarrow> Inr
          [of_cell screen_name, of_cell user_type, PStr (id_str t), PDatetime (created_at t),
           PStr (full_text t), PInt (favorite_count t), PInt (retweet_count t),
           PList (get_default (entities t) ''urls''), PList (get_default (entities t) ''media''),
           PList (get_default (entities t) ''hashtags''),
           PStr (u_id_str (user t)), PStr (u_screen_name (user t)), PBool (u_verified (user t)),
           PInt (u_followers_count (user t)), PInt (u_friends_count (user t)), PStr loc])"

text \<open>
  The comprehensions of the three search-based functions build the same tuple but for
  its first field \<open>key\<close>: the username, the query, or the tag with its marker.
\<close>

definition search_tuple :: "pyval \<Rightarrow> string \<Rightarrow> tweet \<Rightarrow> exn + pyval list" where
  "search_tuple key language t =
     (case add_str (u_location (user t)) '''' of
        Inl e \<Rightarrow> Inl e
      | Inr loc \<Rightarrow> Inr
          [key, PStr language, PStr (id_str t), PDatetime (created_at t), PStr (full_text t),
           of_optional_str (u_lang (user t)), PInt (favorite_count t), PInt (retweet_count t),
           PList (get_default (entities t) ''urls''), PList (get_default (entities t) ''media''),
           PList (get_default (entities t) ''hashtags''),
           PStr (u_id_str (user t)), PStr (u_screen_name (user t)), PBool (u_verified (user t)),
           PInt (u_followers_count (user t)), PInt (u_friends_count (user t)), PStr loc])"

definition extract_tweets_from_user_timeline ::
  "tweepy \<Rightarrow> tweepy_api option \<Rightarrow> cell \<Rightarrow> cell \<Rightarrow> int \<Rightarrow> string \<Rightarrow> bool \<Rightarrow> bool \<Rightarrow> int \<Rightarrow> world
     \<Rightarrow> (exn + pyval list list option) \<times> world" where
  "extract_tweets_from_user_timeline lib api screen_name user_type count tweet_mode
       exclude_replies include_rts extraction_size w =
     (let w1 = py_print (''Extracting username: '' @ py_str screen_name) w
      in case api of
           None \<Rightarrow> (Inl AttributeError, w1)
         | Some handle \<Rightarrow>
             (let req = User_timeline screen_name count tweet_mode exclude_replies include_rts;
                  tweets = items extraction_size (remote lib handle (fetches w1) req);
                  w2 = open_cursor req extraction_size w1
              in except_TweepyException ''Error extracting tweets from user timeline''
                   (comprehension (timeline_tuple screen_name user_type) tweets) w2))"

definition extract_replies_to_user ::
  "tweepy \<Rightarrow> tweepy_api option \<Rightarrow> cell \<Rightarrow> int \<Rightarrow> string \<Rightarrow> string \<Rightarrow> string \<Rightarrow> string \<Rightarrow> int \<Rightarrow> world
     \<Rightarrow> (exn + pyval list list option) \<times> world" where
  "extract_replies_to_user lib api username count tweet_mode language result_type until
       extraction_size w =
     (let w1 = py_print (''Extracting replies to username: '' @ py_str username) w
      in case api of
           None \<Rightarrow> (Inl AttributeError, w1)
         | Some handle \<Rightarrow>
             (let req = Search_tweets (CStr (''to:'' @ py_str username)) language tweet_mode
                          result_type count until;
                  tweets = items extraction_size (remote lib handle (fetches w1) req);
                  w2 = open_cursor req extraction_size w1
              in except_TweepyException ''Error extracting search query tweets''
                   (comprehension (search_tuple (of_cell username) language) tweets) w2))"

definition extract_tweets_from_search ::
  "tweepy \<Rightarrow> tweepy_api option \<Rightarrow> cell \<Rightarrow> int \<Rightarrow> string \<Rightarrow> string \<Rightarrow> string \<Rightarrow> string \<Rightarrow> int \<Rightarrow> world
     \<Rightarrow> (exn + pyval list list option) \<times> world" where
  "extract_tweets_from_search lib api query count tweet_mode language result_type until
       extraction_size w =
     (let w1 = py_print (''Extracting search for: '' @ py_str query) w
      in case api of
           None \<Rightarrow> (Inl AttributeError, w1)
         | Some handle \<Rightarrow>
             (let req = Search_tweets query language tweet_mode result_type count until;
                  tweets = items extraction_size (remote lib handle (fetches w1) req);
                  w2 = open_cursor req extraction_size w1
              in except_TweepyException ''Error extracting search query tweets''
                   (comprehension (search_tuple (of_cell query) language) tweets) w2))"

definition extract_tweets_from_hashtag ::
  "tweepy \<Rightarrow> tweepy_api option \<Rightarrow> cell \<Rightarrow> int \<Rightarrow> string \<Rightarrow> string \<Rightarrow> string \<Rightarrow> string \<Rightarrow> int \<Rightarrow> world
     \<Rightarrow> (exn + pyval list list option) \<times> world" where
  "extract_tweets_from_hashtag lib api hashtag count tweet_mode language result_type until
       extraction_size w =
     (let w1 = py_print (''Extracting hashtag: '' @ py_str hashtag) w
      in case api of
           None \<Rightarrow> (Inl AttributeError, w1)
         | Some handle \<Rightarrow>
             (let req = Search_tweets (CStr (''#'' @ py_str hashtag)) language tweet_mode
                          result_type count until;
                  tweets = items extraction_size (remote lib handle (fetches w1) req);
                  w2 = open_cursor req extraction_size w1
              in except_TweepyException ''Error extracting tweets from hashtag''
                   (comprehension (search_tuple (PStr (''#'' @ py_str hashtag)) language) tweets)
                   w2))"

section \<open>Tables\<close>

text \<open>
  A DataFrame: its column labels and its rows, each row holding one cell per column.
\<close>

record 'a dataframe =
  columns :: "string list"
  rows :: "'a list list"

text \<open>\<open>row[k]\<close> on a row of \<open>iterrows()\<close>: \<open>KeyError\<close> when the table has no column \<open>k\<close>.\<close>

definition getitem :: "string list \<Rightarrow> 'a list \<Rightarrow> string \<Rightarrow> exn + 'a" where
  "getitem cols row k =
     (case map_of (zip cols row) k of None \<Rightarrow> Inl (KeyError k) | Some v \<Rightarrow> Inr v)"

text \<open>\<open>data[k]\<close>: the cells of column \<open>k\<close>, row by row.\<close>

definition getcolumn :: "'a dataframe \<Rightarrow> string \<Rightarrow> exn + 'a list" where
  "getcolumn df k =
     (if k \<in> set (columns df)
      then (case those (map (\<lambda>row. map_of (zip (columns df) row) k) (rows df)) of
              None \<Rightarrow> Inl (KeyError k)
            | Some vs \<Rightarrow> Inr vs)
      else Inl (KeyError k))"

fun index_of :: "string \<Rightarrow> string list \<Rightarrow> nat" where
  "index_of k [] = 0"
| "index_of k (c # cs) = (if c = k then 0 else Suc (index_of k cs))"

text \<open>
  \<open>data[k] = vs\<close>: an existing column is overwritten where it stands, a new one is
  appended as the last column.
\<close>

definition setcolumn :: "'a dataframe \<Rightarrow> string \<Rightarrow> 'a list \<Rightarrow> 'a dataframe" where
  "setcolumn df k vs =
     (if k \<in> set (columns df)
      then df\<lparr>rows := map2 (\<lambda>row v. row[index_of k (columns df) := v]) (rows df) vs\<rparr>
      else df\<lparr>columns := columns df @ [k], rows := map2 (\<lambda>row v. row @ [v]) (rows df) vs\<rparr>)"

text \<open>
  \<open>pd.DataFrame(data=tuples, columns=cols)\<close>: a tuple whose arity is not the number of
  columns is refused (the tuples of one result all have one arity). The constructor infers
  the type of every column: a column that holds nothing but missing values, one of them
  \<open>NaN\<close>, becomes a column of floats, in which \<open>None\<close> is \<open>NaN\<close> too; any other column
  of the records keeps its cells. The numbers, truth values and dates of a record are
  attributes of a post or of its author that are never missing, so a missing value stands
  next to strings or to other missing values only: this is the one inference that changes
  a cell of a table built from records.
\<close>

definition is_missing :: "pyval \<Rightarrow> bool" where
  "is_missing v = (v = PNone \<or> v = PNaN)"

definition infer_objects :: "pyval list \<Rightarrow> pyval list" where
  "infer_objects col =
     (if list_all is_missing col \<and> PNaN \<in> set col then map (\<lambda>v. PNaN) col else col)"

definition DataFrame :: "pyval list list \<Rightarrow> string list \<Rightarrow> exn + pyval dataframe" where
  "DataFrame data cols =
     (if list_all (\<lambda>r. length r = length cols) data
      then Inr \<lparr>columns = cols, rows = transpose (map infer_objects (transpose data))\<rparr>
      else Inl ValueError)"

text \<open>\<open>s.replace('#', '')\<close> under \<open>Series.apply\<close>: a missing value has no \<open>replace\<close>.\<close>

fun replace_marker :: "cell \<Rightarrow> exn + cell" where
  "replace_marker (CStr s) = Inr (CStr (filter (\<lambda>c. c \<noteq> CHR ''#'') s))"
| "replace_marker c = Inl AttributeError"

fun apply_series :: "('a \<Rightarrow> exn + 'b) \<Rightarrow> 'a list \<Rightarrow> exn + 'b list" where
  "apply_series f [] = Inr []"
| "apply_series f (x # xs) =
     (case f x of
        Inl e \<Rightarrow> Inl e
      | Inr y \<Rightarrow> (case apply_series f xs of Inl e \<Rightarrow> Inl e | Inr ys \<Rightarrow> Inr (y # ys)))"

text \<open>\<open>if r is not None and len(r) > 0: acc.extend(r)\<close>.\<close>

definition extend_if :: "'a list \<Rightarrow> 'a list option \<Rightarrow> 'a list" where
  "extend_if acc r =
     (case r of None \<Rightarrow> acc | Some xs \<Rightarrow> if length xs > 0 then acc @ xs else acc)"

section \<open>kedro-nodes.py\<close>

text \<open>
  The call every node starts with:
  \<open>get_auth(consumer_key=params.get(...), ...)\<close>, where \<open>params.get\<close> gives \<open>None\<close> for a
  key the dictionary does not have.
\<close>

definition authenticate ::
  "tweepy \<Rightarrow> (string \<times> string) list \<Rightarrow> world \<Rightarrow> (exn + tweepy_api option) \<times> world" where
  "authenticate lib params w =
     get_auth lib (map_of params ''twitter_api_consumer_key'')
       (map_of params ''twitter_api_consumer_secret'')
       (map_of params ''twitter_api_access_token'')
       (map_of params ''twitter_api_access_secret'') w"

text \<open>The column lists the five nodes declare for their result tables.\<close>

definition timeline_columns :: "string list" where
  "timeline_columns =
    [''extracted_user'', ''type'', ''id'', ''created_at'', ''text'', ''likes'',
     ''retweets'', ''urls'', ''medias'', ''hashtags'', ''user_id'', ''user_screen_name'',
     ''user_verified'', ''user_followers'', ''user_following'', ''location'']"

definition replies_columns :: "string list" where
  "replies_columns =
    [''extracted_user'', ''requested_language'', ''id'', ''created_at'', ''text'', ''language'',
     ''likes'', ''retweets'', ''urls'', ''medias'', ''hashtags'', ''user_id'',
     ''user_screen_name'', ''user_verified'', ''user_followers'', ''user_following'', ''location'']"

definition search_users_columns :: "string list" where
  "search_users_columns =
    [''searched_user'', ''requested_language'', ''id'', ''created_at'', ''text'', ''language'',
     ''likes'', ''retweets'', ''urls'', ''medias'', ''hashtags'', ''user_id'',
     ''user_screen_name'', ''user_verified'', ''user_followers'', ''user_following'', ''location'']"

definition hashtags_columns :: "string list" where
  "hashtags_columns =
    [''hashtag'', ''requested_language'', ''id'', ''created_at'', ''text'', ''language'',
     ''likes'', ''retweets'', ''urls'', ''medias'', ''hashtags'', ''user_id'',
     ''user_screen_name'', ''user_verified'', ''user_followers'', ''user_following'', ''location'']"

definition queries_columns :: "string list" where
  "queries_columns =
    [''search_query'', ''requested_language'', ''id'', ''created_at'', ''text'', ''language'',
     ''likes'', ''retweets'', ''urls'', ''medias'', ''hashtags'', ''user_id'',
     ''user_screen_name'', ''user_verified'', ''user_followers'', ''user_following'', ''location'']"

text \<open>
  The loops over \<open>iterrows()\<close>. The defaults of the extraction functions are written out:
  pages of 200, \<open>tweet_mode='extended'\<close>, \<open>result_type='mixed'\<close>, \<open>until\<close> the import date.
\<close>

fun user_timelines_loop ::
  "tweepy \<Rightarrow> tweepy_api option \<Rightarrow> string list \<Rightarrow> cell list list \<Rightarrow> pyval list list \<Rightarrow> world
     \<Rightarrow> (exn + pyval list list) \<times> world" where
  "user_timelines_loop lib api cols [] users_tweets w = (Inr users_tweets, w)"
| "user_timelines_loop lib api cols (row # rest) users_tweets w =
     (case getitem cols row ''username_twitter'' of
        Inl e \<Rightarrow> (Inl e, w)
      | Inr username \<Rightarrow>
          if notna username then
            (case getitem cols row ''type'' of
               Inl e \<Rightarrow> (Inl e, w)
             | Inr user_type \<Rightarrow>
                 (case extract_tweets_from_user_timeline lib api username user_type 200
                         ''extended'' False False 10000 w of
                    (Inl e, w1) \<Rightarrow> (Inl e, w1)
                  | (Inr user_tweets, w1) \<Rightarrow>
                      user_timelines_loop lib api cols rest (extend_if users_tweets user_tweets) w1))
          else user_timelines_loop lib api cols rest users_tweets w)"

fun replies_to_users_loop ::
  "tweepy \<Rightarrow> tweepy_api option \<Rightarrow> string list \<Rightarrow> cell list list \<Rightarrow> pyval list list \<Rightarrow> world
     \<Rightarrow> (exn + pyval list list) \<times> world" where
  "replies_to_users_loop lib api cols [] replies_to_users w = (Inr replies_to_users, w)"
| "replies_to_users_loop lib api cols (row # rest) replies_to_users w =
     (case getitem cols row ''username_twitter'' of
        Inl e \<Rightarrow> (Inl e, w)
      | Inr username \<Rightarrow>
          if notna username then
          (case extract_replies_to_user lib api username 200 ''extended'' ''en'' ''mixed'' (today lib) 10000 w of
             (Inl e, w1) \<Rightarrow> (Inl e, w1)
           | (Inr replies_to_user_en, w1) \<Rightarrow>
               (case extract_replies_to_user lib api username 200 ''extended'' ''es'' ''mixed'' (today lib)
                       10000 w1 of
                  (Inl e, w2) \<Rightarrow> (Inl e, w2)
                | (Inr replies_to_user_es, w2) \<Rightarrow>
                    replies_to_users_loop lib api cols rest
                      (extend_if (extend_if replies_to_users replies_to_user_en) replies_to_user_es) w2))
          else replies_to_users_loop lib api cols rest replies_to_users w)"

fun search_users_loop ::
  "tweepy \<Rightarrow> tweepy_api option \<Rightarrow> string list \<Rightarrow> cell list list \<Rightarrow> pyval list list \<Rightarrow> world
     \<Rightarrow> (exn + pyval list list) \<times> world" where
  "search_users_loop lib api cols [] tweets_in_search_users w = (Inr tweets_in_search_users, w)"
| "search_users_loop lib api cols (row # rest) tweets_in_search_users w =
     (case getitem cols row ''username_twitter'' of
        Inl e \<Rightarrow> (Inl e, w)
      | Inr username \<Rightarrow>
          if notna username then
          (case extract_tweets_from_search lib api username 200 ''extended'' ''en'' ''mixed'' (today lib) 10000 w of
             (Inl e, w1) \<Rightarrow> (Inl e, w1)
           | (Inr search_user_en, w1) \<Rightarrow>
               (case extract_tweets_from_search lib api username 200 ''extended'' ''es'' ''mixed'' (today lib)
                       10000 w1 of
                  (Inl e, w2) \<Rightarrow> (Inl e, w2)
                | (Inr search_user_es, w2) \<Rightarrow>
                    search_users_loop lib api cols rest
                      (extend_if (extend_if tweets_in_search_users search_user_en) search_user_es) w2))
          else search_users_loop lib api cols rest tweets_in_search_users w)"

fun hashtags_loop ::
  "tweepy \<Rightarrow> tweepy_api option \<Rightarrow> string list \<Rightarrow> cell list list \<Rightarrow> pyval list list \<Rightarrow> world
     \<Rightarrow> (exn + pyval list list) \<times> world" where
  "hashtags_loop lib api cols [] tweets_in_hashtags w = (Inr tweets_in_hashtags, w)"
| "hashtags_loop lib api cols (row # rest) tweets_in_hashtags w =
     (case getitem cols row ''text'' of
        Inl e \<Rightarrow> (Inl e, w)
      | Inr hashtag \<Rightarrow>
          if notna hashtag then
          (case extract_tweets_from_hashtag lib api hashtag 200 ''extended'' ''en'' ''mixed'' (today lib) 10000 w of
             (Inl e, w1) \<Rightarrow> (Inl e, w1)
           | (Inr hashtag_tweets_en, w1) \<Rightarrow>
               (case extract_tweets_from_hashtag lib api hashtag 200 ''extended'' ''es'' ''mixed'' (today lib)
                       10000 w1 of
                  (Inl e, w2) \<Rightarrow> (Inl e, w2)
                | (Inr hashtag_tweets_es, w2) \<Rightarrow>
                    hashtags_loop lib api cols rest
                      (extend_if (extend_if tweets_in_hashtags hashtag_tweets_en) hashtag_tweets_es) w2))
          else hashtags_loop lib api cols rest tweets_in_hashtags w)"

fun queries_loop ::
  "tweepy \<Rightarrow> tweepy_api option \<Rightarrow> string list \<Rightarrow> cell list list \<Rightarrow> pyval list list \<Rightarrow> world
     \<Rightarrow> (exn + pyval list list) \<times> world" where
  "queries_loop lib api cols [] tweets_in_queries w = (Inr tweets_in_queries, w)"
| "queries_loop lib api cols (row # rest) tweets_in_queries w =
     (case getitem cols row ''query'' of
        Inl e \<Rightarrow> (Inl e, w)
      | Inr query \<Rightarrow>
          (case extract_tweets_from_search lib api query 200 ''extended'' ''en'' ''mixed'' (today lib) 10000 w of
             (Inl e, w1) \<Rightarrow> (Inl e, w1)
           | (Inr tweets_in_query_en, w1) \<Rightarrow>
               (case extract_tweets_from_search lib api query 200 ''extended'' ''en'' ''mixed'' (today lib)
                       10000 w1 of
                  (Inl e, w2) \<Rightarrow> (Inl e, w2)
                | (Inr tweets_in_query_es, w2) \<Rightarrow>
                    queries_loop lib api cols rest
                      (extend_if (extend_if tweets_in_queries tweets_in_query_en) tweets_in_query_es) w2)))"

text \<open>
  The nodes. Each returns, beside its result, the table the caller passed in as the
  caller sees it afterwards: a DataFrame is passed by reference.
\<close>

definition extract_user_timelines ::
  "tweepy \<Rightarrow> cell dataframe \<Rightarrow> (string \<times> string) list \<Rightarrow> world
     \<Rightarrow> (exn + pyval dataframe) \<times> cell dataframe \<times> world" where
  "extract_user_timelines lib data params w =
     (let w0 = py_print ''Starting extraction of User Timelines'' w
      in case authenticate lib params w0 of
           (Inl e, w1) \<Rightarrow> (Inl e, data, w1)
         | (Inr api, w1) \<Rightarrow>
             (case user_timelines_loop lib api (columns data) (rows data) [] w1 of
                (Inl e, w2) \<Rightarrow> (Inl e, data, w2)
              | (Inr users_tweets, w2) \<Rightarrow> (DataFrame users_tweets timeline_columns, data, w2)))"

definition extract_replies_to_users ::
  "tweepy \<Rightarrow> cell dataframe \<Rightarrow> (string \<times> string) list \<Rightarrow> world
     \<Rightarrow> (exn + pyval dataframe) \<times> cell dataframe \<times> world" where
  "extract_replies_to_users lib data params w =
     (let w0 = py_print ''Starting extraction of Replies to Users'' w
      in case authenticate lib params w0 of
           (Inl e, w1) \<Rightarrow> (Inl e, data, w1)
         | (Inr api, w1) \<Rightarrow>
             (case replies_to_users_loop lib api (columns data) (rows data) [] w1 of
                (Inl e, w2) \<Rightarrow> (Inl e, data, w2)
              | (Inr replies_to_users, w2) \<Rightarrow> (DataFrame replies_to_users replies_columns, data, w2)))"

definition extract_search_users ::
  "tweepy \<Rightarrow> cell dataframe \<Rightarrow> (string \<times> string) list \<Rightarrow> world
     \<Rightarrow> (exn + pyval dataframe) \<times> cell dataframe \<times> world" where
  "extract_search_users lib data params w =
     (let w0 = py_print ''Starting extraction of Search Users'' w
      in case authenticate lib params w0 of
           (Inl e, w1) \<Rightarrow> (Inl e, data, w1)
         | (Inr api, w1) \<Rightarrow>
             (case search_users_loop lib api (columns data) (rows data) [] w1 of
                (Inl e, w2) \<Rightarrow> (Inl e, data, w2)
              | (Inr tweets_in_search_users, w2) \<Rightarrow> (DataFrame tweets_in_search_users search_users_columns, data, w2)))"

definition extract_tweets_from_hashtags ::
  "tweepy \<Rightarrow> cell dataframe \<Rightarrow> (string \<times> string) list \<Rightarrow> world
     \<Rightarrow> (exn + pyval dataframe) \<times> cell dataframe \<times> world" where
  "extract_tweets_from_hashtags lib data params w =
     (let w0 = py_print ''Starting extraction of Hashtags'' w
      in case authenticate lib params w0 of
           (Inl e, w1) \<Rightarrow> (Inl e, data, w1)
         | (Inr api, w1) \<Rightarrow>
             (case getcolumn data ''hashtag'' of
                Inl e \<Rightarrow> (Inl e, data, w1)
              | Inr series \<Rightarrow>
                  (case apply_series replace_marker series of
                     Inl e \<Rightarrow> (Inl e, data, w1)
                   | Inr texts \<Rightarrow>
                       (let hashtags = setcolumn data ''text'' texts
                        in case hashtags_loop lib api (columns hashtags) (rows hashtags) [] w1 of
                             (Inl e, w2) \<Rightarrow> (Inl e, hashtags, w2)
                           | (Inr tweets_in_hashtags, w2) \<Rightarrow>
                               (DataFrame tweets_in_hashtags hashtags_columns, hashtags, w2)))))"

definition extract_tweets_from_queries ::
  "tweepy \<Rightarrow> cell dataframe \<Rightarrow> (string \<times> string) list \<Rightarrow> world
     \<Rightarrow> (exn + pyval dataframe) \<times> cell dataframe \<times> world" where
  "extract_tweets_from_queries lib data params w =
     (let w0 = py_print ''Starting extraction of Search Queries'' w
      in case authenticate lib params w0 of
           (Inl e, w1) \<Rightarrow> (Inl e, data, w1)
         | (Inr api, w1) \<Rightarrow>
             (case queries_loop lib api (columns data) (rows data) [] w1 of
                (Inl e, w2) \<Rightarrow> (Inl e, data, w2)
              | (Inr tweets_in_queries, w2) \<Rightarrow> (DataFrame tweets_in_queries queries_columns, data, w2)))"

section \<open>The four extraction modes as one operation\<close>

text \<open>
  An extraction request is one of four modes. \<open>extract_mode\<close> dispatches a request to the function
  of its mode, with the parameters all modes share: page size, tweet mode and the item limit.
\<close>

datatype mode =
    Timeline cell cell bool bool
  | Replies cell string string string
  | Search cell string string string
  | Hashtag cell string string string

fun extract_mode ::
  "tweepy \<Rightarrow> tweepy_api option \<Rightarrow> mode \<Rightarrow> int \<Rightarrow> string \<Rightarrow> int \<Rightarrow> world
     \<Rightarrow> (exn + pyval list list option) \<times> world" where
  "extract_mode lib api (Timeline screen_name user_type exclude_replies include_rts) count tweet_mode
       extraction_size w =
     extract_tweets_from_user_timeline lib api screen_name user_type count tweet_mode
       exclude_replies include_rts extraction_size w"
| "extract_mode lib api (Replies username language result_type until) count tweet_mode
       extraction_size w =
     extract_replies_to_user lib api username count tweet_mode language result_type until
       extraction_size w"
| "extract_mode lib api (Search query language result_type until) count tweet_mode
       extraction_size w =
     extract_tweets_from_search lib api query count tweet_mode language result_type until
       extraction_size w"
| "extract_mode lib api (Hashtag hashtag language result_type until) count tweet_mode
       extraction_size w =
     extract_tweets_from_hashtag lib api hashtag count tweet_mode language result_type until
       extraction_size w"

text \<open>What each mode asks of the remote API, prints, and builds from an item.\<close>

fun request_of :: "mode \<Rightarrow> int \<Rightarrow> string \<Rightarrow> request" where
  "request_of (Timeline screen_name user_type exclude_replies include_rts) count tweet_mode =
     User_timeline screen_name count tweet_mode exclude_replies include_rts"
| "request_of (Replies username language result_type until) count tweet_mode =
     Search_tweets (CStr (''to:'' @ py_str username)) language tweet_mode result_type count until"
| "request_of (Search query language result_type until) count tweet_mode =
     Search_tweets query language tweet_mode result_type count until"
| "request_of (Hashtag hashtag language result_type until) count tweet_mode =
     Search_tweets (CStr (''#'' @ py_str hashtag)) language tweet_mode result_type count until"

fun banner :: "mode \<Rightarrow> string" where
  "banner (Timeline screen_name user_type exclude_replies include_rts) =
     ''Extracting username: '' @ py_str screen_name"
| "banner (Replies username language result_type until) =
     ''Extracting replies to username: '' @ py_str username"
| "banner (Search query language result_type until) = ''Extracting search for: '' @ py_str query"
| "banner (Hashtag hashtag language result_type until) = ''Extracting hashtag: '' @ py_str hashtag"

fun diagnostic :: "mode \<Rightarrow> string" where
  "diagnostic (Timeline screen_name user_type exclude_replies include_rts) =
     ''Error extracting tweets from user timeline''"
| "diagnostic (Replies username language result_type until) =
     ''Error extracting search query tweets''"
| "diagnostic (Search query language result_type until) = ''Error extracting search query tweets''"
| "diagnostic (Hashtag hashtag language result_type until) =
     ''Error extracting tweets from hashtag''"

fun tuple_of :: "mode \<Rightarrow> tweet \<Rightarrow> exn + pyval list" where
  "tuple_of (Timeline screen_name user_type exclude_replies include_rts) =
     timeline_tuple screen_name user_type"
| "tuple_of (Replies username language result_type until) =
     search_tuple (of_cell username) language"
| "tuple_of (Search query language result_type until) = search_tuple (of_cell query) language"
| "tuple_of (Hashtag hashtag language result_type until) =
     search_tuple (PStr (''#'' @ py_str hashtag)) language"

text \<open>The column list of the table a mode's records go into.\<close>

fun schema :: "mode \<Rightarrow> string list" where
  "schema (Timeline screen_name user_type exclude_replies include_rts) = timeline_columns"
| "schema (Replies username language result_type until) = replies_columns"
| "schema (Search query language result_type until) = search_users_columns"
| "schema (Hashtag hashtag language result_type until) = hashtags_columns"

text \<open>
  The cursor of request \<open>req\<close>, opened in state \<open>w\<close>, delivers the items \<open>ts\<close> and then
  fails with a \<open>TweepyException\<close> of message \<open>m\<close>.
\<close>

definition fails_after ::
  "tweepy \<Rightarrow> tweepy_api \<Rightarrow> world \<Rightarrow> request \<Rightarrow> tweet list \<Rightarrow> string \<Rightarrow> bool" where
  "fails_after lib handle w req ts m =
     (take (Suc (length ts)) (remote lib handle (fetches w) req) =
        map Item ts @ [Fails (TweepyException m)])"

text \<open>The cursor delivers at least the items \<open>ts\<close> before anything else happens.\<close>

definition delivers ::
  "tweepy \<Rightarrow> tweepy_api \<Rightarrow> world \<Rightarrow> request \<Rightarrow> tweet list \<Rightarrow> bool" where
  "delivers lib handle w req ts =
     (take (length ts) (remote lib handle (fetches w) req) = map Item ts)"

section \<open>A deterministic stub of the environment\<close>

text \<open>
  A library whose constructors always succeed and whose remote side answers every
  request from a fixed table of event streams.
\<close>

definition stub_tweepy :: "(request \<Rightarrow> tweet event list) \<Rightarrow> tweepy" where
  "stub_tweepy feed =
     \<lparr>OAuthHandler = (\<lambda>k s. Inr \<lparr>consumer_key_of = k, consumer_secret_of = s,
                                 access_token_of = None, access_token_secret_of = None\<rparr>),
      set_access_token = (\<lambda>h t s. Inr (h\<lparr>access_token_of := t, access_token_secret_of := s\<rparr>)),
      API = (\<lambda>h wait. Inr \<lparr>auth_of = h, wait_on_rate_limit = wait\<rparr>),
      remote = (\<lambda>handle history req. feed req),
      today = ''2021-11-04''\<rparr>"

definition stub_handle :: tweepy_api where
  "stub_handle =
     \<lparr>auth_of = \<lparr>consumer_key_of = Some ''ck'', consumer_secret_of = Some ''cs'',
                 access_token_of = Some ''at'', access_token_secret_of = Some ''ats''\<rparr>,
      wait_on_rate_limit = True\<rparr>"

definition stub_params :: "(string \<times> string) list" where
  "stub_params =
     [(''twitter_api_consumer_key'', ''ck''), (''twitter_api_consumer_secret'', ''cs''),
      (''twitter_api_access_token'', ''at''), (''twitter_api_access_secret'', ''ats'')]"

definition world0 :: world where
  "world0 = \<lparr>stdout = [], fetches = []\<rparr>"

text \<open>
  A post written by an author whose profile gives location \<open>loc\<close> and language \<open>ulang\<close>;
  the post itself is in English.
\<close>

definition sample_tweet :: "string option \<Rightarrow> string option \<Rightarrow> tweet" where
  "sample_tweet loc ulang =
     \<lparr>id_str = ''1456'', created_at = 1635984000, full_text = ''hello #sale'',
      lang = Some ''en'', favorite_count = 3, retweet_count = 1,
      entities = [(''hashtags'', [[(''text'', ''sale'')]]), (''urls'', [])],
      user = \<lparr>u_id_str = ''77'', u_screen_name = ''bob'', u_verified = False,
               u_followers_count = 10, u_friends_count = 20,
               u_location = loc, u_lang = ulang\<rparr>\<rparr>"

text \<open>Event streams for the stub: the remote side answers every request the same way.\<close>

definition feed_empty :: "request \<Rightarrow> tweet event list" where
  "feed_empty req = []"

definition feed_down :: "request \<Rightarrow> tweet event list" where
  "feed_down req = [Fails (TweepyException ''503 Service Unavailable'')]"

definition feed_one :: "request \<Rightarrow> tweet event list" where
  "feed_one req = [Item (sample_tweet (Some ''San Salvador'') (Some ''es''))]"

definition feed_one_then_down :: "request \<Rightarrow> tweet event list" where
  "feed_one_then_down req =
     [Item (sample_tweet (Some ''San Salvador'') (Some ''es'')),
      Fails (TweepyException ''503 Service Unavailable'')]"

definition feed_no_location :: "request \<Rightarrow> tweet event list" where
  "feed_no_location req = [Item (sample_tweet None (Some ''es''))]"

text \<open>
  A record as the result table of a mode presents it: each declared column with the value
  it holds for the item \<open>t\<close>.
\<close>

definition item_columns :: "tweet \<Rightarrow> (string \<times> pyval) list" where
  "item_columns t =
     [(''likes'', PInt (favorite_count t)), (''retweets'', PInt (retweet_count t)),
      (''urls'', PList (get_default (entities t) ''urls'')),
      (''medias'', PList (get_default (entities t) ''media'')),
      (''hashtags'', PList (get_default (entities t) ''hashtags'')),
      (''user_id'', PStr (u_id_str (user t))),
      (''user_screen_name'', PStr (u_screen_name (user t))),
      (''user_verified'', PBool (u_verified (user t))),
      (''user_followers'', PInt (u_followers_count (user t))),
      (''user_following'', PInt (u_friends_count (user t))),
      (''location'', of_optional_str (u_location (user t)))]"

fun schema_record :: "mode \<Rightarrow> tweet \<Rightarrow> (string \<times> pyval) list" where
  "schema_record (Timeline screen_name user_type exclude_replies include_rts) t =
     [(''extracted_user'', of_cell screen_name), (''type'', of_cell user_type),
      (''id'', PStr (id_str t)), (''created_at'', PDatetime (created_at t)),
      (''text'', PStr (full_text t))] @ item_columns t"
| "schema_record (Replies username language result_type until) t =
     [(''extracted_user'', of_cell username), (''requested_language'', PStr language),
      (''id'', PStr (id_str t)), (''created_at'', PDatetime (created_at t)),
      (''text'', PStr (full_text t)), (''language'', of_optional_str (u_lang (user t)))]
     @ item_columns t"
| "schema_record (Search query language result_type until) t =
     [(''searched_user'', of_cell query), (''requested_language'', PStr language),
      (''id'', PStr (id_str t)), (''created_at'', PDatetime (created_at t)),
      (''text'', PStr (full_text t)), (''language'', of_optional_str (u_lang (user t)))]
     @ item_columns t"
| "schema_record (Hashtag hashtag language result_type until) t =
     [(''hashtag'', PStr (''#'' @ py_str hashtag)), (''requested_language'', PStr language),
      (''id'', PStr (id_str t)), (''created_at'', PDatetime (created_at t)),
      (''text'', PStr (full_text t)), (''language'', of_optional_str (u_lang (user t)))]
     @ item_columns t"

fun arity :: "mode \<Rightarrow> nat" where
  "arity (Timeline screen_name user_type exclude_replies include_rts) = 16"
| "arity (Replies username language result_type until) = 17"
| "arity (Search query language result_type until) = 17"
| "arity (Hashtag hashtag language result_type until) = 17"

text \<open>
  The library as tweepy 4 behaves when a handle is built: \<open>OAuthHandler\<close> only checks that
  the consumer key and secret are strings, raising \<open>TypeError\<close> otherwise, and sends
  nothing; \<open>set_access_token\<close> stores the token and its secret; \<open>API\<close> builds the handle.
  The remote side answers every request from a fixed table of event streams.
\<close>

definition tweepy_library :: "(request \<Rightarrow> tweet event list) \<Rightarrow> tweepy" where
  "tweepy_library feed =
     \<lparr>OAuthHandler = (\<lambda>k s. case k of
          None \<Rightarrow> Inl TypeError
        | Some k' \<Rightarrow> (case s of
            None \<Rightarrow> Inl TypeError
          | Some s' \<Rightarrow> Inr \<lparr>consumer_key_of = k, consumer_secret_of = s,
                            access_token_of = None, access_token_secret_of = None\<rparr>)),
      set_access_token = (\<lambda>h t s. Inr (h\<lparr>access_token_of := t, access_token_secret_of := s\<rparr>)),
      API = (\<lambda>h wait. Inr \<lparr>auth_of = h, wait_on_rate_limit = wait\<rparr>),
      remote = (\<lambda>handle history req. feed req),
      today = ''2021-11-04''\<rparr>"


text \<open>
  A remote side that knows one post: it is on the timeline of \<open>alice\<close> and it is the only
  match of the query \<open>#sale\<close>.
\<close>

fun feed_by_key :: "request \<Rightarrow> tweet event list" where
  "feed_by_key (User_timeline name count tweet_mode exclude_replies include_rts) =
     (if name = CStr ''alice'' then [Item (sample_tweet (Some ''San Salvador'') (Some ''es''))]
      else [])"
| "feed_by_key (Search_tweets q language tweet_mode result_type count until) =
     (if q = CStr ''#sale'' then [Item (sample_tweet (Some ''San Salvador'') (Some ''es''))]
      else [])"

text \<open>
  A row has its key when the column exists and the cell is not missing; \<open>key_of\<close> reads
  the cell.
\<close>

definition present :: "string list \<Rightarrow> string \<Rightarrow> cell list \<Rightarrow> bool" where
  "present cols k row = (case getitem cols row k of Inl e \<Rightarrow> False | Inr c \<Rightarrow> notna c)"

definition key_of :: "string list \<Rightarrow> string \<Rightarrow> cell list \<Rightarrow> cell" where
  "key_of cols k row = (case getitem cols row k of Inl e \<Rightarrow> CNone | Inr c \<Rightarrow> c)"

text \<open>
  What a batch run is to do, as the state machine of the orchestrator describes it: the
  rows without their key are skipped, every other row becomes one extraction request, or
  one per language, in the order of the table.
\<close>

definition timeline_modes :: "string list \<Rightarrow> cell list list \<Rightarrow> mode list" where
  "timeline_modes cols table =
     map (\<lambda>row. Timeline (key_of cols ''username_twitter'' row) (key_of cols ''type'' row)
                   False False)
       (filter (present cols ''username_twitter'') table)"

definition replies_modes :: "tweepy \<Rightarrow> string list \<Rightarrow> cell list list \<Rightarrow> mode list" where
  "replies_modes lib cols table =
     concat (map (\<lambda>row. [Replies (key_of cols ''username_twitter'' row) ''en'' ''mixed'' (today lib),
                          Replies (key_of cols ''username_twitter'' row) ''es'' ''mixed'' (today lib)])
               (filter (present cols ''username_twitter'') table))"

definition search_users_modes :: "tweepy \<Rightarrow> string list \<Rightarrow> cell list list \<Rightarrow> mode list" where
  "search_users_modes lib cols table =
     concat (map (\<lambda>row. [Search (key_of cols ''username_twitter'' row) ''en'' ''mixed'' (today lib),
                          Search (key_of cols ''username_twitter'' row) ''es'' ''mixed'' (today lib)])
               (filter (present cols ''username_twitter'') table))"

text \<open>The cursor a node opens for a request: pages of 200, extended mode, at most 10000 items.\<close>

definition fetch_of :: "mode \<Rightarrow> request \<times> int" where
  "fetch_of md = (request_of md 200 ''extended'', 10000)"

text \<open>
  The records that a sequence of requests, issued one after the other after the cursors
  of \<open>history\<close>, adds to the result: those of every request whose fetch does not fail.
\<close>

fun collect :: "tweepy \<Rightarrow> tweepy_api \<Rightarrow> mode list \<Rightarrow> (request \<times> int) list \<Rightarrow> pyval list list" where
  "collect lib handle [] history = []"
| "collect lib handle (md # mds) history =
     (case comprehension (tuple_of md)
             (items 10000 (remote lib handle history (request_of md 200 ''extended''))) of
        Inl e \<Rightarrow> []
      | Inr rs \<Rightarrow> rs)
     @ collect lib handle mds (history @ [fetch_of md])"

text \<open>A table is well formed when every row has one cell per column.\<close>

definition wf_frame :: "'a dataframe \<Rightarrow> bool" where
  "wf_frame df = list_all (\<lambda>row. length row = length (columns df)) (rows df)"

text \<open>The tag of a hashtag cell with its markers removed.\<close>

definition stripped :: "string \<Rightarrow> cell" where
  "stripped tag = CStr (filter (\<lambda>c. c \<noteq> CHR ''#'') tag)"

text \<open>Input tables for the stub.\<close>

definition users_frame :: "cell dataframe" where
  "users_frame =
     \<lparr>columns = [''username_twitter'', ''type''],
      rows = [[CStr ''alice'', CStr ''customer''], [CNone, CStr ''competitor'']]\<rparr>"

definition blank_user_frame :: "cell dataframe" where
  "blank_user_frame =
     \<lparr>columns = [''username_twitter'', ''type''], rows = [[CStr [], CStr ''customer'']]\<rparr>"

definition queries_frame :: "cell dataframe" where
  "queries_frame = \<lparr>columns = [''query''], rows = [[CStr ''kedro'']]\<rparr>"

definition missing_query_frame :: "cell dataframe" where
  "missing_query_frame = \<lparr>columns = [''query''], rows = [[CNone]]\<rparr>"

definition hashtags_frame :: "cell dataframe" where
  "hashtags_frame = \<lparr>columns = [''hashtag''], rows = [[CStr ''#sale'']]\<rparr>"

definition missing_hashtag_frame :: "cell dataframe" where
  "missing_hashtag_frame = \<lparr>columns = [''hashtag''], rows = [[CStr ''#sale''], [CNone]]\<rparr>"

definition tagged_frame :: "cell dataframe" where
  "tagged_frame =
     \<lparr>columns = [''hashtag'', ''text''], rows = [[CStr ''#sale'', CStr ''sale'']]\<rparr>"

section \<open>Basic facts\<close>

lemma fetches_py_print [simp]: "fetches (py_print s w) = fetches w"
  by (simp add: py_print_def)

lemma stdout_py_print [simp]: "stdout (py_print s w) = stdout w @ [s]"
  by (simp add: py_print_def)

lemma fetches_open_cursor [simp]: "fetches (open_cursor req n w) = fetches w @ [(req, n)]"
  by (simp add: open_cursor_def)

lemma stdout_open_cursor [simp]: "stdout (open_cursor req n w) = stdout w"
  by (simp add: open_cursor_def)

text \<open>With a handle, every mode is the same pipeline: print, open the cursor, build, catch.\<close>

lemma extract_mode_unfold:
  "extract_mode lib (Some handle) md count tweet_mode n w =
     except_TweepyException (diagnostic md)
       (comprehension (tuple_of md)
          (items n (remote lib handle (fetches w) (request_of md count tweet_mode))))
       (open_cursor (request_of md count tweet_mode) n (py_print (banner md) w))"
  by (cases md)
     (simp_all add: extract_tweets_from_user_timeline_def extract_replies_to_user_def
        extract_tweets_from_search_def extract_tweets_from_hashtag_def Let_def)

lemma extract_mode_no_handle:
  "extract_mode lib None md count tweet_mode n w = (Inl AttributeError, py_print (banner md) w)"
  by (cases md)
     (simp_all add: extract_tweets_from_user_timeline_def extract_replies_to_user_def
        extract_tweets_from_search_def extract_tweets_from_hashtag_def Let_def)

lemma items_fails:
  "int (length ts) < n \<Longrightarrow> items n (map Item ts @ Fails e # evs) = map Item ts @ [Fails e]"
  by (induction ts arbitrary: n) auto

lemma items_nonpos: "n \<le> 0 \<Longrightarrow> items n evs = []"
  by (induction n evs rule: items.induct) auto

lemma items_limit:
  "0 \<le> n \<Longrightarrow> n \<le> int (length ts) \<Longrightarrow> items n (map Item ts @ evs) = map Item (take (nat n) ts)"
proof (induction ts arbitrary: n)
  case Nil
  then show ?case by (simp add: items_nonpos)
next
  case (Cons t ts)
  show ?case
  proof (cases "n \<le> 0")
    case True
    with Cons.prems show ?thesis by simp
  next
    case False
    then have "nat n = Suc (nat (n - 1))" by simp
    with False Cons show ?thesis by simp
  qed
qed

lemma items_subset: "set (items n evs) \<subseteq> set evs"
  by (induction n evs rule: items.induct) auto

lemma comprehension_fails:
  "list_all2 (\<lambda>t r. f t = Inr r) ts rs \<Longrightarrow> comprehension f (map Item ts @ [Fails e]) = Inl e"
  by (induction ts rs rule: list_all2_induct) auto

lemma comprehension_items:
  "list_all2 (\<lambda>t r. f t = Inr r) ts rs \<Longrightarrow> comprehension f (map Item ts) = Inr rs"
  by (induction ts rs rule: list_all2_induct) auto

lemma comprehension_Inr:
  "comprehension f evs = Inr rs \<Longrightarrow> \<exists>ts. evs = map Item ts \<and> list_all2 (\<lambda>t r. f t = Inr r) ts rs"
proof (induction f evs arbitrary: rs rule: comprehension.induct)
  case (1 f)
  then show ?case by simp
next
  case (2 f e evs)
  then show ?case by simp
next
  case (3 f x evs)
  from "3.prems" obtain y ys where y: "f x = Inr y" and ys: "comprehension f evs = Inr ys"
    and rs: "rs = y # ys"
    by (auto split: sum.splits)
  from "3.IH"[OF y ys] obtain ts where "evs = map Item ts" "list_all2 (\<lambda>t r. f t = Inr r) ts ys"
    by blast
  with y rs have "Item x # evs = map Item (x # ts) \<and> list_all2 (\<lambda>t r. f t = Inr r) (x # ts) rs"
    by simp
  then show ?case by (rule exI)
qed

lemma tuple_of_total:
  "u_location (user t) \<noteq> None \<Longrightarrow> \<exists>r. tuple_of md t = Inr r"
  by (cases md) (auto simp: timeline_tuple_def search_tuple_def)

lemma all_tuples:
  "list_all (\<lambda>t. \<exists>r. f t = Inr r) ts \<Longrightarrow> \<exists>rs. list_all2 (\<lambda>t r. f t = Inr r) ts rs"
proof (induction ts)
  case Nil
  then show ?case by simp
next
  case (Cons t ts)
  then obtain r rs where "f t = Inr r" "list_all2 (\<lambda>t r. f t = Inr r) ts rs" by auto
  then have "list_all2 (\<lambda>t r. f t = Inr r) (t # ts) (r # rs)" by simp
  then show ?case by (rule exI)
qed

lemma located_tuples:
  assumes "list_all (\<lambda>t. u_location (user t) \<noteq> None) ts"
  shows "\<exists>rs. list_all2 (\<lambda>t r. tuple_of md t = Inr r) ts rs"
proof -
  from assms have "list_all (\<lambda>t. \<exists>r. tuple_of md t = Inr r) ts"
    by (simp add: list_all_iff tuple_of_total)
  then show ?thesis by (rule all_tuples)
qed

lemma fails_afterD:
  assumes "fails_after lib handle w req ts m"
  shows "\<exists>evs. remote lib handle (fetches w) req = map Item ts @ Fails (TweepyException m) # evs"
proof -
  let ?feed = "remote lib handle (fetches w) req"
  have "?feed = take (Suc (length ts)) ?feed @ drop (Suc (length ts)) ?feed" by simp
  with assms have "?feed = map Item ts @ Fails (TweepyException m) # drop (Suc (length ts)) ?feed"
    by (simp add: fails_after_def)
  then show ?thesis by (rule exI)
qed

section \<open>Fetch failures\<close>

text \<open>
  Claim C1, as the code has it. When the cursor of any of the four modes fails with a
  \<open>TweepyException\<close> before the item limit is reached, the extraction function prints its
  banner, its diagnostic and the message of the exception, and returns \<open>None\<close>, not an
  empty sequence. A caller cannot take the length of that result; the nodes test
  \<open>is not None\<close> first, so that such a result adds nothing to their table.
\<close>

theorem failed_fetch_returns_None:
  assumes fails: "fails_after lib handle w (request_of md count tweet_mode) ts m"
    and short: "int (length ts) < extraction_size"
    and located: "list_all (\<lambda>t. u_location (user t) \<noteq> None) ts"
  shows "fst (extract_mode lib (Some handle) md count tweet_mode extraction_size w) = Inr None
       \<and> stdout (snd (extract_mode lib (Some handle) md count tweet_mode extraction_size w))
           = stdout w @ [banner md, diagnostic md, m]
       \<and> extend_if acc None = acc"
proof -
  from fails_afterD[OF fails] obtain evs where
    feed: "remote lib handle (fetches w) (request_of md count tweet_mode)
             = map Item ts @ Fails (TweepyException m) # evs" by blast
  from located_tuples[OF located] obtain rs where
    rs: "list_all2 (\<lambda>t r. tuple_of md t = Inr r) ts rs" by blast
  have "comprehension (tuple_of md)
          (items extraction_size (remote lib handle (fetches w) (request_of md count tweet_mode)))
        = Inl (TweepyException m)"
    by (simp add: feed items_fails[OF short] comprehension_fails[OF rs])
  then show ?thesis
    by (simp add: extract_mode_unfold extend_if_def)
qed

theorem failed_fetch_returns_None_witness:
  "fails_after (stub_tweepy feed_one_then_down) stub_handle world0
     (request_of (Replies (CStr ''alice'') ''en'' ''mixed'' ''2021-11-04'') 200 ''extended'')
     [sample_tweet (Some ''San Salvador'') (Some ''es'')] ''503 Service Unavailable''
   \<and> int (length [sample_tweet (Some ''San Salvador'') (Some ''es'')]) < 10000
   \<and> list_all (\<lambda>t. u_location (user t) \<noteq> None) [sample_tweet (Some ''San Salvador'') (Some ''es'')]
   \<and> fst (extract_mode (stub_tweepy feed_one_then_down) (Some stub_handle)
            (Replies (CStr ''alice'') ''en'' ''mixed'' ''2021-11-04'') 200 ''extended'' 10000 world0)
       = Inr None
   \<and> stdout (snd (extract_mode (stub_tweepy feed_one_then_down) (Some stub_handle)
            (Replies (CStr ''alice'') ''en'' ''mixed'' ''2021-11-04'') 200 ''extended'' 10000 world0))
       = [''Extracting replies to username: alice'', ''Error extracting search query tweets'',
          ''503 Service Unavailable'']"
proof -
  have a: "fails_after (stub_tweepy feed_one_then_down) stub_handle world0
     (request_of (Replies (CStr ''alice'') ''en'' ''mixed'' ''2021-11-04'') 200 ''extended'')
     [sample_tweet (Some ''San Salvador'') (Some ''es'')] ''503 Service Unavailable''"
    by (simp add: fails_after_def stub_tweepy_def feed_one_then_down_def)
  have b: "int (length [sample_tweet (Some ''San Salvador'') (Some ''es'')]) < 10000" by simp
  have c: "list_all (\<lambda>t. u_location (user t) \<noteq> None)
             [sample_tweet (Some ''San Salvador'') (Some ''es'')]"
    by (simp add: sample_tweet_def)
  have e: "stdout world0 @ [banner (Replies (CStr ''alice'') ''en'' ''mixed'' ''2021-11-04''),
             diagnostic (Replies (CStr ''alice'') ''en'' ''mixed'' ''2021-11-04''),
             ''503 Service Unavailable'']
           = [''Extracting replies to username: alice'', ''Error extracting search query tweets'',
          ''503 Service Unavailable'']" by (simp add: world0_def)
  from failed_fetch_returns_None[OF a b c, of "[]::pyval list list"]
  have d: "fst (extract_mode (stub_tweepy feed_one_then_down) (Some stub_handle)
            (Replies (CStr ''alice'') ''en'' ''mixed'' ''2021-11-04'') 200 ''extended'' 10000 world0)
       = Inr None
   \<and> stdout (snd (extract_mode (stub_tweepy feed_one_then_down) (Some stub_handle)
            (Replies (CStr ''alice'') ''en'' ''mixed'' ''2021-11-04'') 200 ''extended'' 10000 world0))
       = [''Extracting replies to username: alice'', ''Error extracting search query tweets'',
          ''503 Service Unavailable'']"
    unfolding e by blast
  from a b c d show ?thesis by blast
qed

text \<open>
  Claim C1 as stated fails: with a remote side that is down from the first page on, the
  timeline extraction does not return the empty sequence.
\<close>

theorem failed_fetch_empty_counterexample:
  "fst (extract_tweets_from_user_timeline (stub_tweepy feed_down) (Some stub_handle)
          (CStr ''alice'') (CStr ''customer'') 200 ''extended'' False False 10000 world0)
     \<noteq> Inr (Some [])"
  by (simp add: extract_tweets_from_user_timeline_def stub_tweepy_def feed_down_def Let_def)

text \<open>
  Claim C2, as the code has it. Let the cursor deliver the items \<open>ts\<close>, every one of
  them with a location, and then fail with a \<open>TweepyException\<close>. The records \<open>rs\<close>
  of those items exist, but the function returns them only when the item limit stops the
  iteration before the failure is met, and then the first \<open>extraction_size\<close> of them.
  When the failure is met, that is with fewer than \<open>extraction_size\<close> items before it,
  the function returns \<open>None\<close> and the records built so far are lost.
\<close>

theorem partial_result_is_discarded:
  assumes fails: "fails_after lib handle w (request_of md count tweet_mode) ts m"
    and located: "list_all (\<lambda>t. u_location (user t) \<noteq> None) ts"
  shows "\<exists>rs. list_all2 (\<lambda>t r. tuple_of md t = Inr r) ts rs
       \<and> fst (extract_mode lib (Some handle) md count tweet_mode extraction_size w)
           = (if int (length ts) < extraction_size then Inr None
              else Inr (Some (take (nat extraction_size) rs)))"
proof -
  from fails_afterD[OF fails] obtain evs where
    feed: "remote lib handle (fetches w) (request_of md count tweet_mode)
             = map Item ts @ Fails (TweepyException m) # evs" by blast
  from located_tuples[OF located] obtain rs where
    rs: "list_all2 (\<lambda>t r. tuple_of md t = Inr r) ts rs" by blast
  let ?built = "comprehension (tuple_of md)
          (items extraction_size (remote lib handle (fetches w) (request_of md count tweet_mode)))"
  have "fst (extract_mode lib (Some handle) md count tweet_mode extraction_size w)
           = (if int (length ts) < extraction_size then Inr None
              else Inr (Some (take (nat extraction_size) rs)))"
  proof (cases "int (length ts) < extraction_size")
    case True
    then have "?built = Inl (TweepyException m)"
      by (simp add: feed items_fails comprehension_fails[OF rs])
    with True show ?thesis by (simp add: extract_mode_unfold)
  next
    case False
    have taken: "list_all2 (\<lambda>t r. tuple_of md t = Inr r)
                   (take (nat extraction_size) ts) (take (nat extraction_size) rs)"
      using rs by (rule list_all2_takeI)
    have "items extraction_size (map Item ts @ Fails (TweepyException m) # evs)
            = map Item (take (nat extraction_size) ts)"
    proof (cases "0 \<le> extraction_size")
      case True
      with False show ?thesis by (simp add: items_limit)
    next
      case False
      then show ?thesis by (simp add: items_nonpos)
    qed
    then have "?built = Inr (take (nat extraction_size) rs)"
      by (simp add: feed comprehension_items[OF taken])
    with False show ?thesis by (simp add: extract_mode_unfold)
  qed
  with rs show ?thesis by blast
qed

theorem partial_result_is_discarded_witness:
  "fails_after (stub_tweepy feed_one_then_down) stub_handle world0
     (request_of (Hashtag (CStr ''sale'') ''es'' ''mixed'' ''2021-11-04'') 200 ''extended'')
     [sample_tweet (Some ''San Salvador'') (Some ''es'')] ''503 Service Unavailable''
   \<and> list_all (\<lambda>t. u_location (user t) \<noteq> None) [sample_tweet (Some ''San Salvador'') (Some ''es'')]
   \<and> fst (extract_mode (stub_tweepy feed_one_then_down) (Some stub_handle)
            (Hashtag (CStr ''sale'') ''es'' ''mixed'' ''2021-11-04'') 200 ''extended'' 10000 world0)
       = Inr None
   \<and> (\<exists>r. fst (extract_mode (stub_tweepy feed_one_then_down) (Some stub_handle)
            (Hashtag (CStr ''sale'') ''es'' ''mixed'' ''2021-11-04'') 200 ''extended'' 1 world0)
       = Inr (Some [r]))"
proof -
  have a: "fails_after (stub_tweepy feed_one_then_down) stub_handle world0
     (request_of (Hashtag (CStr ''sale'') ''es'' ''mixed'' ''2021-11-04'') 200 ''extended'')
     [sample_tweet (Some ''San Salvador'') (Some ''es'')] ''503 Service Unavailable''"
    by (simp add: fails_after_def stub_tweepy_def feed_one_then_down_def)
  have c: "list_all (\<lambda>t. u_location (user t) \<noteq> None)
             [sample_tweet (Some ''San Salvador'') (Some ''es'')]"
    by (simp add: sample_tweet_def)
  from partial_result_is_discarded[OF a c, of 10000]
  have big: "fst (extract_mode (stub_tweepy feed_one_then_down) (Some stub_handle)
            (Hashtag (CStr ''sale'') ''es'' ''mixed'' ''2021-11-04'') 200 ''extended'' 10000 world0)
       = Inr None" by simp
  from partial_result_is_discarded[OF a c, of 1]
  have small: "\<exists>r. fst (extract_mode (stub_tweepy feed_one_then_down) (Some stub_handle)
            (Hashtag (CStr ''sale'') ''es'' ''mixed'' ''2021-11-04'') 200 ''extended'' 1 world0)
       = Inr (Some [r])" by (auto simp: list_all2_Cons1)
  from a c big small show ?thesis by blast
qed

text \<open>
  Claim C2 as stated fails: one item and then a failure, far below the limit of 200, do
  not give the one record built from that item.
\<close>

theorem partial_result_kept_counterexample:
  "fst (extract_tweets_from_search (stub_tweepy feed_one_then_down) (Some stub_handle)
          (CStr ''kedro'') 200 ''extended'' ''en'' ''mixed'' ''2021-11-04'' 200 world0)
     \<noteq> Inr (Some
          [[PStr ''kedro'', PStr ''en'', PStr ''1456'', PDatetime 1635984000, PStr ''hello #sale'',
            PStr ''es'', PInt 3, PInt 1, PList [], PList [], PList [[(''text'', ''sale'')]],
            PStr ''77'', PStr ''bob'', PBool False, PInt 10, PInt 20, PStr ''San Salvador'']])
   \<and> search_tuple (PStr ''kedro'') ''en'' (sample_tweet (Some ''San Salvador'') (Some ''es''))
       = Inr [PStr ''kedro'', PStr ''en'', PStr ''1456'', PDatetime 1635984000, PStr ''hello #sale'',
            PStr ''es'', PInt 3, PInt 1, PList [], PList [], PList [[(''text'', ''sale'')]],
            PStr ''77'', PStr ''bob'', PBool False, PInt 10, PInt 20, PStr ''San Salvador'']"
  by (simp add: extract_tweets_from_search_def stub_tweepy_def feed_one_then_down_def Let_def
        search_tuple_def sample_tweet_def get_default_def)

section \<open>Normalized records\<close>

lemma tuple_of_schema:
  assumes "tuple_of md t = Inr r"
  shows "length r = arity md \<and> length r = length (schema md) \<and> zip (schema md) r = schema_record md t"
proof -
  from assms obtain loc where loc: "u_location (user t) = Some loc"
    by (cases md; cases "u_location (user t)") (auto simp: timeline_tuple_def search_tuple_def)
  with assms show ?thesis
    by (cases md)
       (auto simp: timeline_tuple_def search_tuple_def item_columns_def timeline_columns_def
          replies_columns_def search_users_columns_def hashtags_columns_def)
qed

lemma except_TweepyException_Some:
  "fst (except_TweepyException msg b w) = Inr (Some rs) \<Longrightarrow> b = Inr rs"
  by (induction msg b w rule: except_TweepyException.induct) auto

lemma fetches_except_TweepyException [simp]:
  "fetches (snd (except_TweepyException msg b w)) = fetches w"
  by (induction msg b w rule: except_TweepyException.induct) auto

lemma extract_mode_Some:
  assumes "fst (extract_mode lib api md count tweet_mode n w) = Inr (Some rs)"
  shows "\<exists>handle ts. api = Some handle
       \<and> items n (remote lib handle (fetches w) (request_of md count tweet_mode)) = map Item ts
       \<and> list_all2 (\<lambda>t r. tuple_of md t = Inr r) ts rs"
proof (cases api)
  case None
  with assms show ?thesis by (simp add: extract_mode_no_handle)
next
  case (Some handle)
  let ?built = "comprehension (tuple_of md)
      (items n (remote lib handle (fetches w) (request_of md count tweet_mode)))"
  from assms Some have "?built = Inr rs"
    by (auto simp: extract_mode_unfold dest: except_TweepyException_Some)
  from comprehension_Inr[OF this] Some show ?thesis by blast
qed

text \<open>
  Claim C6. Every record of every result an extraction mode returns has as many fields as
  the schema of its mode has columns, 16 for the timeline and 17 for replies, search and
  hashtag, and its fields stand in the order of the declared columns: the records are those
  of the items the cursor delivered, one for one and in their order, and each record,
  paired field by field with the column names, is the labelled record of its own item.
\<close>

theorem records_follow_schema:
  assumes "fst (extract_mode lib api md count tweet_mode extraction_size w) = Inr (Some rs)"
  shows "\<exists>handle ts. api = Some handle
       \<and> items extraction_size (remote lib handle (fetches w) (request_of md count tweet_mode))
           = map Item ts
       \<and> list_all2 (\<lambda>t r. length r = arity md \<and> length r = length (schema md)
                         \<and> zip (schema md) r = schema_record md t) ts rs"
proof -
  from extract_mode_Some[OF assms] obtain handle ts where
    api: "api = Some handle"
    and feed: "items extraction_size (remote lib handle (fetches w)
                 (request_of md count tweet_mode)) = map Item ts"
    and rs: "list_all2 (\<lambda>t r. tuple_of md t = Inr r) ts rs" by blast
  have "list_all2 (\<lambda>t r. length r = arity md \<and> length r = length (schema md)
                         \<and> zip (schema md) r = schema_record md t) ts rs"
    using rs by (rule list_all2_mono) (rule tuple_of_schema)
  with api feed show ?thesis by blast
qed

theorem records_follow_schema_witness:
  "fst (extract_mode (tweepy_library feed_by_key) (Some stub_handle)
          (Timeline (CStr ''alice'') (CStr ''customer'') False False) 200 ''extended'' 10000 world0)
     = Inr (Some [[PStr ''alice'', PStr ''customer'', PStr ''1456'', PDatetime 1635984000,
          PStr ''hello #sale'', PInt 3, PInt 1, PList [], PList [], PList [[(''text'', ''sale'')]],
          PStr ''77'', PStr ''bob'', PBool False, PInt 10, PInt 20, PStr ''San Salvador'']])
   \<and> (\<exists>handle ts. Some stub_handle = Some handle
       \<and> items 10000 (remote (tweepy_library feed_by_key) handle (fetches world0)
            (request_of (Timeline (CStr ''alice'') (CStr ''customer'') False False) 200
               ''extended''))
           = map Item ts
       \<and> list_all2 (\<lambda>t r. length r = arity (Timeline (CStr ''alice'') (CStr ''customer'') False False)
                         \<and> length r = length (schema (Timeline (CStr ''alice'') (CStr ''customer'')
                                                        False False))
                         \<and> zip (schema (Timeline (CStr ''alice'') (CStr ''customer'') False False)) r
                             = schema_record (Timeline (CStr ''alice'') (CStr ''customer'')
                                 False False) t) ts
           [[PStr ''alice'', PStr ''customer'', PStr ''1456'', PDatetime 1635984000,
          PStr ''hello #sale'', PInt 3, PInt 1, PList [], PList [], PList [[(''text'', ''sale'')]],
          PStr ''77'', PStr ''bob'', PBool False, PInt 10, PInt 20, PStr ''San Salvador'']])
   \<and> schema_record (Timeline (CStr ''alice'') (CStr ''customer'') False False)
         (sample_tweet (Some ''San Salvador'') (Some ''es''))
       = [(''extracted_user'', PStr ''alice''), (''type'', PStr ''customer''),
          (''id'', PStr ''1456''), (''created_at'', PDatetime 1635984000),
          (''text'', PStr ''hello #sale''), (''likes'', PInt 3), (''retweets'', PInt 1),
          (''urls'', PList []), (''medias'', PList []),
          (''hashtags'', PList [[(''text'', ''sale'')]]), (''user_id'', PStr ''77''),
          (''user_screen_name'', PStr ''bob''), (''user_verified'', PBool False),
          (''user_followers'', PInt 10), (''user_following'', PInt 20),
          (''location'', PStr ''San Salvador'')]"
proof -
  have run: "fst (extract_mode (tweepy_library feed_by_key) (Some stub_handle)
          (Timeline (CStr ''alice'') (CStr ''customer'') False False) 200 ''extended'' 10000 world0)
     = Inr (Some [[PStr ''alice'', PStr ''customer'', PStr ''1456'', PDatetime 1635984000,
          PStr ''hello #sale'', PInt 3, PInt 1, PList [], PList [], PList [[(''text'', ''sale'')]],
          PStr ''77'', PStr ''bob'', PBool False, PInt 10, PInt 20, PStr ''San Salvador'']])"
    by (simp add: extract_tweets_from_user_timeline_def tweepy_library_def Let_def
          timeline_tuple_def sample_tweet_def get_default_def)
  have labelled: "schema_record (Timeline (CStr ''alice'') (CStr ''customer'') False False)
         (sample_tweet (Some ''San Salvador'') (Some ''es''))
       = [(''extracted_user'', PStr ''alice''), (''type'', PStr ''customer''),
          (''id'', PStr ''1456''), (''created_at'', PDatetime 1635984000),
          (''text'', PStr ''hello #sale''), (''likes'', PInt 3), (''retweets'', PInt 1),
          (''urls'', PList []), (''medias'', PList []),
          (''hashtags'', PList [[(''text'', ''sale'')]]), (''user_id'', PStr ''77''),
          (''user_screen_name'', PStr ''bob''), (''user_verified'', PBool False),
          (''user_followers'', PInt 10), (''user_following'', PInt 20),
          (''location'', PStr ''San Salvador'')]"
    by (simp add: item_columns_def sample_tweet_def get_default_def)
  show ?thesis
    by (rule conjI[OF run conjI[OF records_follow_schema[OF run] labelled]])
qed

text \<open>
  Claim C5 does not hold of the code. A record, once built, ends with the location of the
  author as a string; but an item whose author has no location yields no record at all:
  the addition that was to coerce the location raises \<open>TypeError\<close>.
\<close>

lemma location_of_record:
  "tuple_of md t = Inr r \<Longrightarrow> \<exists>loc. u_location (user t) = Some loc \<and> last r = PStr loc"
  by (cases md; cases "u_location (user t)") (auto simp: timeline_tuple_def search_tuple_def)

lemma no_location_no_record:
  "u_location (user t) = None \<Longrightarrow> tuple_of md t = Inl TypeError"
  by (cases md) (auto simp: timeline_tuple_def search_tuple_def)

text \<open>
  The failing input of claim C5: one item whose author has no location. Each of the four
  extraction functions raises \<open>TypeError\<close> instead of returning a record with an empty
  location.
\<close>

theorem missing_location_raises:
  "fst (extract_tweets_from_user_timeline (stub_tweepy feed_no_location) (Some stub_handle)
          (CStr ''alice'') (CStr ''customer'') 200 ''extended'' False False 10000 world0)
     = Inl TypeError
   \<and> fst (extract_replies_to_user (stub_tweepy feed_no_location) (Some stub_handle)
          (CStr ''alice'') 200 ''extended'' ''en'' ''mixed'' ''2021-11-04'' 10000 world0)
     = Inl TypeError
   \<and> fst (extract_tweets_from_search (stub_tweepy feed_no_location) (Some stub_handle)
          (CStr ''kedro'') 200 ''extended'' ''en'' ''mixed'' ''2021-11-04'' 10000 world0)
     = Inl TypeError
   \<and> fst (extract_tweets_from_hashtag (stub_tweepy feed_no_location) (Some stub_handle)
          (CStr ''sale'') 200 ''extended'' ''en'' ''mixed'' ''2021-11-04'' 10000 world0)
     = Inl TypeError"
  by (simp add: extract_tweets_from_user_timeline_def extract_replies_to_user_def
        extract_tweets_from_search_def extract_tweets_from_hashtag_def
        stub_tweepy_def feed_no_location_def Let_def
        timeline_tuple_def search_tuple_def sample_tweet_def)

text \<open>
  Claim C7. Given a tag, the hashtag extraction builds its query by putting the marker
  \<open>#\<close> before the tag: the cursor it opens is on that query, the records it returns are
  those of the items the remote side delivers for that query, one for one, and the first
  field of each is the marked tag.
\<close>

theorem hashtag_key_is_prefixed:
  assumes "extract_tweets_from_hashtag lib api (CStr tag) count tweet_mode language
             result_type until extraction_size w = (Inr (Some rs), w')"
  shows "\<exists>handle ts. api = Some handle
       \<and> fetches w' = fetches w @
           [(Search_tweets (CStr (''#'' @ tag)) language tweet_mode result_type count until,
             extraction_size)]
       \<and> items extraction_size (remote lib handle (fetches w)
            (Search_tweets (CStr (''#'' @ tag)) language tweet_mode result_type count until))
           = map Item ts
       \<and> list_all2 (\<lambda>t r. search_tuple (PStr (''#'' @ tag)) language t = Inr r
                         \<and> take 1 r = [PStr (''#'' @ tag)]) ts rs"
proof -
  let ?md = "Hashtag (CStr tag) language result_type until"
  let ?req = "Search_tweets (CStr (''#'' @ tag)) language tweet_mode result_type count until"
  have run: "extract_mode lib api ?md count tweet_mode extraction_size w = (Inr (Some rs), w')"
    using assms by simp
  then have "fst (extract_mode lib api ?md count tweet_mode extraction_size w) = Inr (Some rs)"
    by (simp del: extract_mode.simps)
  from extract_mode_Some[OF this] obtain handle ts where
    api: "api = Some handle"
    and feed: "items extraction_size (remote lib handle (fetches w)
                 (request_of ?md count tweet_mode)) = map Item ts"
    and rs: "list_all2 (\<lambda>t r. tuple_of ?md t = Inr r) ts rs" by blast
  from feed have feed': "items extraction_size (remote lib handle (fetches w) ?req) = map Item ts"
    by simp
  have "fetches w' = fetches (snd (extract_mode lib (Some handle) ?md count tweet_mode
                                     extraction_size w))"
    using run api by (simp del: extract_mode.simps)
  then have cursor: "fetches w' = fetches w @ [(?req, extraction_size)]"
    by (simp add: extract_mode_unfold del: extract_mode.simps)
  have first: "take 1 r = [PStr (''#'' @ tag)]"
    if "search_tuple (PStr (''#'' @ tag)) language t = Inr r" for t r
    using that by (auto simp: search_tuple_def split: sum.splits)
  from rs have rs': "list_all2 (\<lambda>t r. search_tuple (PStr (''#'' @ tag)) language t = Inr r) ts rs"
    by simp
  have "list_all2 (\<lambda>t r. search_tuple (PStr (''#'' @ tag)) language t = Inr r
                         \<and> take 1 r = [PStr (''#'' @ tag)]) ts rs"
    using rs' by (rule list_all2_mono) (blast intro: first)
  with api cursor feed' show ?thesis by blast
qed

theorem hashtag_key_is_prefixed_witness:
  "extract_tweets_from_hashtag (tweepy_library feed_by_key) (Some stub_handle) (CStr ''sale'') 200
      ''extended'' ''en'' ''mixed'' ''2021-11-04'' 10000 world0
     = (Inr (Some [[PStr ''#sale'', PStr ''en'', PStr ''1456'', PDatetime 1635984000,
          PStr ''hello #sale'', PStr ''es'', PInt 3, PInt 1, PList [], PList [],
          PList [[(''text'', ''sale'')]], PStr ''77'', PStr ''bob'', PBool False, PInt 10,
          PInt 20, PStr ''San Salvador'']]),
        \<lparr>stdout = [''Extracting hashtag: sale''],
         fetches = [(Search_tweets (CStr ''#sale'') ''en'' ''extended'' ''mixed'' 200
                       ''2021-11-04'', 10000)]\<rparr>)
   \<and> (\<exists>handle ts. Some stub_handle = Some handle
       \<and> fetches \<lparr>stdout = [''Extracting hashtag: sale''],
         fetches = [(Search_tweets (CStr ''#sale'') ''en'' ''extended'' ''mixed'' 200
                       ''2021-11-04'', 10000)]\<rparr>
           = fetches world0 @
           [(Search_tweets (CStr (''#'' @ ''sale'')) ''en'' ''extended'' ''mixed'' 200
               ''2021-11-04'', 10000)]
       \<and> items 10000 (remote (tweepy_library feed_by_key) handle (fetches world0)
            (Search_tweets (CStr (''#'' @ ''sale'')) ''en'' ''extended'' ''mixed'' 200
               ''2021-11-04''))
           = map Item ts
       \<and> list_all2 (\<lambda>t r. search_tuple (PStr (''#'' @ ''sale'')) ''en'' t = Inr r
                         \<and> take 1 r = [PStr (''#'' @ ''sale'')]) ts
           [[PStr ''#sale'', PStr ''en'', PStr ''1456'', PDatetime 1635984000,
          PStr ''hello #sale'', PStr ''es'', PInt 3, PInt 1, PList [], PList [],
          PList [[(''text'', ''sale'')]], PStr ''77'', PStr ''bob'', PBool False, PInt 10,
          PInt 20, PStr ''San Salvador'']])
   \<and> fst (extract_tweets_from_hashtag (tweepy_library feed_by_key) (Some stub_handle)
            (CStr ''offer'') 200 ''extended'' ''en'' ''mixed'' ''2021-11-04'' 10000 world0)
       = Inr (Some [])"
proof -
  have run: "extract_tweets_from_hashtag (tweepy_library feed_by_key) (Some stub_handle)
      (CStr ''sale'') 200 ''extended'' ''en'' ''mixed'' ''2021-11-04'' 10000 world0
     = (Inr (Some [[PStr ''#sale'', PStr ''en'', PStr ''1456'', PDatetime 1635984000,
          PStr ''hello #sale'', PStr ''es'', PInt 3, PInt 1, PList [], PList [],
          PList [[(''text'', ''sale'')]], PStr ''77'', PStr ''bob'', PBool False, PInt 10,
          PInt 20, PStr ''San Salvador'']]),
        \<lparr>stdout = [''Extracting hashtag: sale''],
         fetches = [(Search_tweets (CStr ''#sale'') ''en'' ''extended'' ''mixed'' 200
                       ''2021-11-04'', 10000)]\<rparr>)"
    by (simp add: extract_tweets_from_hashtag_def tweepy_library_def Let_def
          search_tuple_def sample_tweet_def get_default_def world0_def py_print_def
          open_cursor_def)
  have other: "fst (extract_tweets_from_hashtag (tweepy_library feed_by_key) (Some stub_handle)
            (CStr ''offer'') 200 ''extended'' ''en'' ''mixed'' ''2021-11-04'' 10000 world0)
       = Inr (Some [])"
    by (simp add: extract_tweets_from_hashtag_def tweepy_library_def Let_def)
  show ?thesis
    by (rule conjI[OF run conjI[OF hashtag_key_is_prefixed[OF run] other]])
qed

text \<open>
  Claim C8, as the code has it. The \<open>language\<close> field of every record of the replies
  extraction is the language of the profile of the author of the reply, read from
  \<open>tweet.user.lang\<close>; it is not read from the reply itself. It stands beside the
  \<open>requested_language\<close> field, which is the language filter passed to the API.
\<close>

lemma search_tuple_language:
  assumes "search_tuple key language t = Inr r"
  shows "map_of (zip replies_columns r) ''language'' = Some (of_optional_str (u_lang (user t)))
       \<and> map_of (zip replies_columns r) ''requested_language'' = Some (PStr language)"
proof (cases "u_location (user t)")
  case None
  with assms show ?thesis by (simp add: search_tuple_def)
next
  case (Some loc)
  with assms have "r = [key, PStr language, PStr (id_str t), PDatetime (created_at t),
           PStr (full_text t), of_optional_str (u_lang (user t)), PInt (favorite_count t),
           PInt (retweet_count t), PList (get_default (entities t) ''urls''),
           PList (get_default (entities t) ''media''),
           PList (get_default (entities t) ''hashtags''),
           PStr (u_id_str (user t)), PStr (u_screen_name (user t)), PBool (u_verified (user t)),
           PInt (u_followers_count (user t)), PInt (u_friends_count (user t)), PStr loc]"
    by (simp add: search_tuple_def)
  then show ?thesis by (simp add: replies_columns_def)
qed

theorem language_is_authors:
  assumes "fst (extract_replies_to_user lib api username count tweet_mode language result_type
                  until extraction_size w) = Inr (Some rs)"
  shows "\<exists>handle ts. api = Some handle
       \<and> items extraction_size (remote lib handle (fetches w)
            (Search_tweets (CStr (''to:'' @ py_str username)) language tweet_mode result_type
               count until)) = map Item ts
       \<and> list_all2 (\<lambda>t r. map_of (zip replies_columns r) ''language''
                             = Some (of_optional_str (u_lang (user t)))
                         \<and> map_of (zip replies_columns r) ''requested_language''
                             = Some (PStr language)) ts rs"
proof -
  let ?md = "Replies username language result_type until"
  let ?req = "Search_tweets (CStr (''to:'' @ py_str username)) language tweet_mode result_type
               count until"
  from assms have "fst (extract_mode lib api ?md count tweet_mode extraction_size w)
      = Inr (Some rs)" by simp
  from extract_mode_Some[OF this] obtain handle ts where
    api: "api = Some handle"
    and feed: "items extraction_size (remote lib handle (fetches w)
                 (request_of ?md count tweet_mode)) = map Item ts"
    and rs: "list_all2 (\<lambda>t r. tuple_of ?md t = Inr r) ts rs" by blast
  from feed have feed': "items extraction_size (remote lib handle (fetches w) ?req) = map Item ts"
    by simp
  from rs have rs': "list_all2 (\<lambda>t r. search_tuple (of_cell username) language t = Inr r) ts rs"
    by simp
  have "list_all2 (\<lambda>t r. map_of (zip replies_columns r) ''language''
                             = Some (of_optional_str (u_lang (user t)))
                         \<and> map_of (zip replies_columns r) ''requested_language''
                             = Some (PStr language)) ts rs"
    using rs' by (rule list_all2_mono) (rule search_tuple_language)
  with api feed' show ?thesis by blast
qed

theorem language_is_authors_witness:
  "fst (extract_replies_to_user (stub_tweepy feed_one) (Some stub_handle) (CStr ''alice'') 200
          ''extended'' ''en'' ''mixed'' ''2021-11-04'' 10000 world0)
     = Inr (Some [[PStr ''alice'', PStr ''en'', PStr ''1456'', PDatetime 1635984000,
          PStr ''hello #sale'', PStr ''es'', PInt 3, PInt 1, PList [], PList [],
          PList [[(''text'', ''sale'')]], PStr ''77'', PStr ''bob'', PBool False, PInt 10,
          PInt 20, PStr ''San Salvador'']])
   \<and> (\<exists>handle ts. Some stub_handle = Some handle
       \<and> items 10000 (remote (stub_tweepy feed_one) handle (fetches world0)
            (Search_tweets (CStr (''to:'' @ py_str (CStr ''alice''))) ''en'' ''extended'' ''mixed''
               200 ''2021-11-04'')) = map Item ts
       \<and> list_all2 (\<lambda>t r. map_of (zip replies_columns r) ''language''
                             = Some (of_optional_str (u_lang (user t)))
                         \<and> map_of (zip replies_columns r) ''requested_language''
                             = Some (PStr ''en'')) ts
            [[PStr ''alice'', PStr ''en'', PStr ''1456'', PDatetime 1635984000,
          PStr ''hello #sale'', PStr ''es'', PInt 3, PInt 1, PList [], PList [],
          PList [[(''text'', ''sale'')]], PStr ''77'', PStr ''bob'', PBool False, PInt 10,
          PInt 20, PStr ''San Salvador'']])"
proof -
  have run: "fst (extract_replies_to_user (stub_tweepy feed_one) (Some stub_handle)
          (CStr ''alice'') 200 ''extended'' ''en'' ''mixed'' ''2021-11-04'' 10000 world0)
     = Inr (Some [[PStr ''alice'', PStr ''en'', PStr ''1456'', PDatetime 1635984000,
          PStr ''hello #sale'', PStr ''es'', PInt 3, PInt 1, PList [], PList [],
          PList [[(''text'', ''sale'')]], PStr ''77'', PStr ''bob'', PBool False, PInt 10,
          PInt 20, PStr ''San Salvador'']])"
    by (simp add: extract_replies_to_user_def stub_tweepy_def feed_one_def Let_def
          search_tuple_def sample_tweet_def get_default_def)
  show ?thesis by (rule conjI[OF run language_is_authors[OF run]])
qed

text \<open>
  Claim C8 as stated fails: a reply written in English by an author whose profile is in
  Spanish gets \<open>es\<close>, not \<open>en\<close>, in the column \<open>language\<close>.
\<close>

theorem language_of_post_counterexample:
  "fst (extract_replies_to_user (stub_tweepy feed_one) (Some stub_handle) (CStr ''alice'') 200
          ''extended'' ''en'' ''mixed'' ''2021-11-04'' 10000 world0)
     = Inr (Some [[PStr ''alice'', PStr ''en'', PStr ''1456'', PDatetime 1635984000,
          PStr ''hello #sale'', PStr ''es'', PInt 3, PInt 1, PList [], PList [],
          PList [[(''text'', ''sale'')]], PStr ''77'', PStr ''bob'', PBool False, PInt 10,
          PInt 20, PStr ''San Salvador'']])
   \<and> feed_one (Search_tweets (CStr ''to:alice'') ''en'' ''extended'' ''mixed'' 200 ''2021-11-04'')
       = [Item (sample_tweet (Some ''San Salvador'') (Some ''es''))]
   \<and> lang (sample_tweet (Some ''San Salvador'') (Some ''es'')) = Some ''en''
   \<and> replies_columns ! 5 = ''language''
   \<and> PStr ''es'' \<noteq> of_optional_str (lang (sample_tweet (Some ''San Salvador'') (Some ''es'')))"
  by (simp add: extract_replies_to_user_def stub_tweepy_def feed_one_def Let_def
        search_tuple_def sample_tweet_def get_default_def replies_columns_def)

section \<open>Authentication\<close>

lemma fetches_except_auth [simp]: "fetches (snd (except_auth e w)) = fetches w"
  by (induction e w rule: except_auth.induct) auto

lemma fetches_get_auth [simp]: "fetches (snd (get_auth lib ck cs tok sec w)) = fetches w"
  by (simp add: get_auth_def Let_def split: sum.splits)

lemma fetches_authenticate [simp]: "fetches (snd (authenticate lib params w)) = fetches w"
  by (simp add: authenticate_def)



section \<open>Batch runs\<close>

text \<open>
  A request that returns adds one cursor to the log and its records, if any, to the
  accumulator; a loop that returns has issued the requests of its table, and no other, in
  their order, and has accumulated what they collect.
\<close>

lemma extract_mode_step:
  assumes "extract_mode lib (Some handle) md 200 ''extended'' 10000 w = (Inr out, w1)"
  shows "fetches w1 = fetches w @ [fetch_of md]
       \<and> extend_if acc out = acc @ collect lib handle [md] (fetches w)"
proof -
  let ?built = "comprehension (tuple_of md)
      (items 10000 (remote lib handle (fetches w) (request_of md 200 ''extended'')))"
  have "fetches w1 = fetches (snd (extract_mode lib (Some handle) md 200 ''extended'' 10000 w))"
    by (simp only: assms snd_conv)
  then have cursor: "fetches w1 = fetches w @ [fetch_of md]"
    by (simp add: extract_mode_unfold fetch_of_def)
  have out: "fst (except_TweepyException (diagnostic md) ?built
               (open_cursor (request_of md 200 ''extended'') 10000 (py_print (banner md) w)))
             = Inr out"
    using assms by (simp add: extract_mode_unfold)
  have "extend_if acc out = acc @ (case ?built of Inl e \<Rightarrow> [] | Inr rs \<Rightarrow> rs)"
  proof (cases ?built)
    case (Inr rs)
    with out show ?thesis by (auto simp: extend_if_def)
  next
    case (Inl e)
    with out show ?thesis by (cases e) (auto simp: extend_if_def)
  qed
  with cursor show ?thesis by simp
qed

lemma extract_mode_None_raises:
  "extract_mode lib None md count tweet_mode n w \<noteq> (Inr out, w1)"
  by (simp add: extract_mode_no_handle)

lemma collect_append:
  "collect lib handle (mds @ mds') history
     = collect lib handle mds history @ collect lib handle mds' (history @ map fetch_of mds)"
  by (induction mds arbitrary: history) auto

lemma user_timelines_loop_run:
  assumes "user_timelines_loop lib api cols table acc w = (Inr r, w')"
  shows "fetches w' = fetches w @ map fetch_of (timeline_modes cols table)
       \<and> (\<forall>handle. api = Some handle \<or> timeline_modes cols table = []
            \<longrightarrow> r = acc @ collect lib handle (timeline_modes cols table) (fetches w))"
  using assms
proof (induction table arbitrary: acc w)
  case Nil
  then show ?case by (simp add: timeline_modes_def)
next
  case (Cons row rest)
  show ?case
  proof (cases "getitem cols row ''username_twitter''")
    case (Inl e)
    with Cons.prems show ?thesis by simp
  next
    case (Inr username)
    show ?thesis
    proof (cases "notna username")
      case False
      with Inr Cons.prems have "user_timelines_loop lib api cols rest acc w = (Inr r, w')"
        by simp
      from Cons.IH[OF this] Inr False show ?thesis
        by (simp add: timeline_modes_def present_def)
    next
      case True
      with Inr Cons.prems obtain user_type user_tweets w1 where
        ty: "getitem cols row ''type'' = Inr user_type"
        and step: "extract_tweets_from_user_timeline lib api username user_type 200 ''extended''
                 False False 10000 w = (Inr user_tweets, w1)"
        and rest: "user_timelines_loop lib api cols rest (extend_if acc user_tweets) w1 = (Inr r, w')"
        by (auto split: sum.splits prod.splits)
      let ?md = "Timeline username user_type False False"
      have modes: "timeline_modes cols (row # rest) = ?md # timeline_modes cols rest"
        using Inr True ty by (simp add: timeline_modes_def present_def key_of_def)
      from step have step': "extract_mode lib api ?md 200 ''extended'' 10000 w = (Inr user_tweets, w1)"
        by simp
      then obtain handle where api: "api = Some handle"
        by (cases api) (auto simp: extract_mode_no_handle simp del: extract_mode.simps)
      from extract_mode_step[OF step'[unfolded api], of acc]
      have f1: "fetches w1 = fetches w @ [fetch_of ?md]"
        and a1: "extend_if acc user_tweets = acc @ collect lib handle [?md] (fetches w)"
        by simp_all
      from Cons.IH[OF rest] api
      have f2: "fetches w' = fetches w1 @ map fetch_of (timeline_modes cols rest)"
        and r2: "r = extend_if acc user_tweets
                      @ collect lib handle (timeline_modes cols rest) (fetches w1)"
        by simp_all
      from f1 f2 a1 r2 modes api show ?thesis by simp
    qed
  qed
qed

lemma replies_to_users_loop_run:
  assumes "replies_to_users_loop lib api cols table acc w = (Inr r, w')"
  shows "fetches w' = fetches w @ map fetch_of (replies_modes lib cols table)
       \<and> (\<forall>handle. api = Some handle \<or> replies_modes lib cols table = []
            \<longrightarrow> r = acc @ collect lib handle (replies_modes lib cols table) (fetches w))"
  using assms
proof (induction table arbitrary: acc w)
  case Nil
  then show ?case by (simp add: replies_modes_def)
next
  case (Cons row rest)
  show ?case
  proof (cases "getitem cols row ''username_twitter''")
    case (Inl e)
    with Cons.prems show ?thesis by simp
  next
    case (Inr username)
    show ?thesis
    proof (cases "notna username")
      case False
      with Inr Cons.prems have "replies_to_users_loop lib api cols rest acc w = (Inr r, w')"
        by simp
      from Cons.IH[OF this] Inr False show ?thesis
        by (simp add: replies_modes_def present_def)
    next
      case True
      with Inr Cons.prems obtain out_en w1 out_es w2 where
        en: "extract_replies_to_user lib api username 200 ''extended'' ''en'' ''mixed'' (today lib) 10000 w
               = (Inr out_en, w1)"
        and es: "extract_replies_to_user lib api username 200 ''extended'' ''es'' ''mixed'' (today lib) 10000 w1
               = (Inr out_es, w2)"
        and rest: "replies_to_users_loop lib api cols rest (extend_if (extend_if acc out_en) out_es) w2
               = (Inr r, w')"
        by (auto split: sum.splits prod.splits)
      let ?en = "Replies username ''en'' ''mixed'' (today lib)"
      let ?es = "Replies username ''es'' ''mixed'' (today lib)"
      have modes: "replies_modes lib cols (row # rest) = ?en # ?es # replies_modes lib cols rest"
        using Inr True by (simp add: replies_modes_def present_def key_of_def)
      from en have en': "extract_mode lib api ?en 200 ''extended'' 10000 w = (Inr out_en, w1)"
        by simp
      from es have es': "extract_mode lib api ?es 200 ''extended'' 10000 w1 = (Inr out_es, w2)"
        by simp
      from en' obtain handle where api: "api = Some handle"
        by (cases api) (auto simp: extract_mode_no_handle simp del: extract_mode.simps)
      from extract_mode_step[OF en'[unfolded api], of acc]
      have f1: "fetches w1 = fetches w @ [fetch_of ?en]"
        and a1: "extend_if acc out_en = acc @ collect lib handle [?en] (fetches w)"
        by simp_all
      from extract_mode_step[OF es'[unfolded api], of "extend_if acc out_en"]
      have f2: "fetches w2 = fetches w1 @ [fetch_of ?es]"
        and a2: "extend_if (extend_if acc out_en) out_es
                   = extend_if acc out_en @ collect lib handle [?es] (fetches w1)"
        by simp_all
      from Cons.IH[OF rest] api
      have f3: "fetches w' = fetches w2 @ map fetch_of (replies_modes lib cols rest)"
        and r3: "r = extend_if (extend_if acc out_en) out_es
                      @ collect lib handle (replies_modes lib cols rest) (fetches w2)"
        by simp_all
      from f1 f2 f3 a1 a2 r3 modes api show ?thesis by simp
    qed
  qed
qed

lemma search_users_loop_run:
  assumes "search_users_loop lib api cols table acc w = (Inr r, w')"
  shows "fetches w' = fetches w @ map fetch_of (search_users_modes lib cols table)
       \<and> (\<forall>handle. api = Some handle \<or> search_users_modes lib cols table = []
            \<longrightarrow> r = acc @ collect lib handle (search_users_modes lib cols table) (fetches w))"
  using assms
proof (induction table arbitrary: acc w)
  case Nil
  then show ?case by (simp add: search_users_modes_def)
next
  case (Cons row rest)
  show ?case
  proof (cases "getitem cols row ''username_twitter''")
    case (Inl e)
    with Cons.prems show ?thesis by simp
  next
    case (Inr username)
    show ?thesis
    proof (cases "notna username")
      case False
      with Inr Cons.prems have "search_users_loop lib api cols rest acc w = (Inr r, w')"
        by simp
      from Cons.IH[OF this] Inr False show ?thesis
        by (simp add: search_users_modes_def present_def)
    next
      case True
      with Inr Cons.prems obtain out_en w1 out_es w2 where
        en: "extract_tweets_from_search lib api username 200 ''extended'' ''en'' ''mixed'' (today lib) 10000 w
               = (Inr out_en, w1)"
        and es: "extract_tweets_from_search lib api username 200 ''extended'' ''es'' ''mixed'' (today lib) 10000 w1
               = (Inr out_es, w2)"
        and rest: "search_users_loop lib api cols rest (extend_if (extend_if acc out_en) out_es) w2
               = (Inr r, w')"
        by (auto split: sum.splits prod.splits)
      let ?en = "Search username ''en'' ''mixed'' (today lib)"
      let ?es = "Search username ''es'' ''mixed'' (today lib)"
      have modes: "search_users_modes lib cols (row # rest) = ?en # ?es # search_users_modes lib cols rest"
        using Inr True by (simp add: search_users_modes_def present_def key_of_def)
      from en have en': "extract_mode lib api ?en 200 ''extended'' 10000 w = (Inr out_en, w1)"
        by simp
      from es have es': "extract_mode lib api ?es 200 ''extended'' 10000 w1 = (Inr out_es, w2)"
        by simp
      from en' obtain handle where api: "api = Some handle"
        by (cases api) (auto simp: extract_mode_no_handle simp del: extract_mode.simps)
      from extract_mode_step[OF en'[unfolded api], of acc]
      have f1: "fetches w1 = fetches w @ [fetch_of ?en]"
        and a1: "extend_if acc out_en = acc @ collect lib handle [?en] (fetches w)"
        by simp_all
      from extract_mode_step[OF es'[unfolded api], of "extend_if acc out_en"]
      have f2: "fetches w2 = fetches w1 @ [fetch_of ?es]"
        and a2: "extend_if (extend_if acc out_en) out_es
                   = extend_if acc out_en @ collect lib handle [?es] (fetches w1)"
        by simp_all
      from Cons.IH[OF rest] api
      have f3: "fetches w' = fetches w2 @ map fetch_of (search_users_modes lib cols rest)"
        and r3: "r = extend_if (extend_if acc out_en) out_es
                      @ collect lib handle (search_users_modes lib cols rest) (fetches w2)"
        by simp_all
      from f1 f2 f3 a1 a2 r3 modes api show ?thesis by simp
    qed
  qed
qed

lemma extract_user_timelines_run:
  assumes "extract_user_timelines lib data params w = (Inr table, data', w')"
  shows "fetches w' = fetches w @ map fetch_of (timeline_modes (columns data) (rows data))
       \<and> (\<forall>handle. fst (authenticate lib params (py_print ''Starting extraction of User Timelines'' w)) = Inr (Some handle)
                   \<or> timeline_modes (columns data) (rows data) = []
            \<longrightarrow> DataFrame (collect lib handle (timeline_modes (columns data) (rows data)) (fetches w)) timeline_columns = Inr table)"
proof -
  let ?w0 = "py_print ''Starting extraction of User Timelines'' w"
  obtain a w1 where auth: "authenticate lib params ?w0 = (a, w1)" by (cases "authenticate lib params ?w0")
  with assms obtain api where a: "a = Inr api"
    by (cases a) (auto simp: extract_user_timelines_def Let_def)
  obtain b w2 where loop: "user_timelines_loop lib api (columns data) (rows data) [] w1 = (b, w2)"
    by (cases "user_timelines_loop lib api (columns data) (rows data) [] w1")
  with assms auth a obtain r where b: "b = Inr r"
    by (cases b) (auto simp: extract_user_timelines_def Let_def)
  from assms auth a loop b have table: "DataFrame r timeline_columns = Inr table" and w': "w' = w2"
    by (auto simp: extract_user_timelines_def Let_def)
  have "fetches w1 = fetches (snd (authenticate lib params ?w0))" by (simp only: auth snd_conv)
  then have f1: "fetches w1 = fetches w" by simp
  from user_timelines_loop_run[OF loop[unfolded b]] f1
  have f2: "fetches w2 = fetches w @ map fetch_of (timeline_modes (columns data) (rows data))"
    and r: "\<forall>handle. api = Some handle \<or> timeline_modes (columns data) (rows data) = []
              \<longrightarrow> r = collect lib handle (timeline_modes (columns data) (rows data)) (fetches w)"
    by simp_all
  have api: "api = Some handle"
    if "fst (authenticate lib params ?w0) = Inr (Some handle)" for handle
    using that auth a by simp
  have "DataFrame (collect lib handle (timeline_modes (columns data) (rows data)) (fetches w)) timeline_columns = Inr table"
    if "fst (authenticate lib params ?w0) = Inr (Some handle) \<or> timeline_modes (columns data) (rows data) = []" for handle
  proof -
    from that api have "api = Some handle \<or> timeline_modes (columns data) (rows data) = []" by blast
    with r have "r = collect lib handle (timeline_modes (columns data) (rows data)) (fetches w)" by blast
    with table show ?thesis by simp
  qed
  with f2 w' show ?thesis by simp
qed

lemma extract_replies_to_users_run:
  assumes "extract_replies_to_users lib data params w = (Inr table, data', w')"
  shows "fetches w' = fetches w @ map fetch_of (replies_modes lib (columns data) (rows data))
       \<and> (\<forall>handle. fst (authenticate lib params (py_print ''Starting extraction of Replies to Users'' w)) = Inr (Some handle)
                   \<or> replies_modes lib (columns data) (rows data) = []
            \<longrightarrow> DataFrame (collect lib handle (replies_modes lib (columns data) (rows data)) (fetches w)) replies_columns = Inr table)"
proof -
  let ?w0 = "py_print ''Starting extraction of Replies to Users'' w"
  obtain a w1 where auth: "authenticate lib params ?w0 = (a, w1)" by (cases "authenticate lib params ?w0")
  with assms obtain api where a: "a = Inr api"
    by (cases a) (auto simp: extract_replies_to_users_def Let_def)
  obtain b w2 where loop: "replies_to_users_loop lib api (columns data) (rows data) [] w1 = (b, w2)"
    by (cases "replies_to_users_loop lib api (columns data) (rows data) [] w1")
  with assms auth a obtain r where b: "b = Inr r"
    by (cases b) (auto simp: extract_replies_to_users_def Let_def)
  from assms auth a loop b have table: "DataFrame r replies_columns = Inr table" and w': "w' = w2"
    by (auto simp: extract_replies_to_users_def Let_def)
  have "fetches w1 = fetches (snd (authenticate lib params ?w0))" by (simp only: auth snd_conv)
  then have f1: "fetches w1 = fetches w" by simp
  from replies_to_users_loop_run[OF loop[unfolded b]] f1
  have f2: "fetches w2 = fetches w @ map fetch_of (replies_modes lib (columns data) (rows data))"
    and r: "\<forall>handle. api = Some handle \<or> replies_modes lib (columns data) (rows data) = []
              \<longrightarrow> r = collect lib handle (replies_modes lib (columns data) (rows data)) (fetches w)"
    by simp_all
  have api: "api = Some handle"
    if "fst (authenticate lib params ?w0) = Inr (Some handle)" for handle
    using that auth a by simp
  have "DataFrame (collect lib handle (replies_modes lib (columns data) (rows data)) (fetches w)) replies_columns = Inr table"
    if "fst (authenticate lib params ?w0) = Inr (Some handle) \<or> replies_modes lib (columns data) (rows data) = []" for handle
  proof -
    from that api have "api = Some handle \<or> replies_modes lib (columns data) (rows data) = []" by blast
    with r have "r = collect lib handle (replies_modes lib (columns data) (rows data)) (fetches w)" by blast
    with table show ?thesis by simp
  qed
  with f2 w' show ?thesis by simp
qed

lemma extract_search_users_run:
  assumes "extract_search_users lib data params w = (Inr table, data', w')"
  shows "fetches w' = fetches w @ map fetch_of (search_users_modes lib (columns data) (rows data))
       \<and> (\<forall>handle. fst (authenticate lib params (py_print ''Starting extraction of Search Users'' w)) = Inr (Some handle)
                   \<or> search_users_modes lib (columns data) (rows data) = []
            \<longrightarrow> DataFrame (collect lib handle (search_users_modes lib (columns data) (rows data)) (fetches w)) search_users_columns = Inr table)"
proof -
  let ?w0 = "py_print ''Starting extraction of Search Users'' w"
  obtain a w1 where auth: "authenticate lib params ?w0 = (a, w1)" by (cases "authenticate lib params ?w0")
  with assms obtain api where a: "a = Inr api"
    by (cases a) (auto simp: extract_search_users_def Let_def)
  obtain b w2 where loop: "search_users_loop lib api (columns data) (rows data) [] w1 = (b, w2)"
    by (cases "search_users_loop lib api (columns data) (rows data) [] w1")
  with assms auth a obtain r where b: "b = Inr r"
    by (cases b) (auto simp: extract_search_users_def Let_def)
  from assms auth a loop b have table: "DataFrame r search_users_columns = Inr table" and w': "w' = w2"
    by (auto simp: extract_search_users_def Let_def)
  have "fetches w1 = fetches (snd (authenticate lib params ?w0))" by (simp only: auth snd_conv)
  then have f1: "fetches w1 = fetches w" by simp
  from search_users_loop_run[OF loop[unfolded b]] f1
  have f2: "fetches w2 = fetches w @ map fetch_of (search_users_modes lib (columns data) (rows data))"
    and r: "\<forall>handle. api = Some handle \<or> search_users_modes lib (columns data) (rows data) = []
              \<longrightarrow> r = collect lib handle (search_users_modes lib (columns data) (rows data)) (fetches w)"
    by simp_all
  have api: "api = Some handle"
    if "fst (authenticate lib params ?w0) = Inr (Some handle)" for handle
    using that auth a by simp
  have "DataFrame (collect lib handle (search_users_modes lib (columns data) (rows data)) (fetches w)) search_users_columns = Inr table"
    if "fst (authenticate lib params ?w0) = Inr (Some handle) \<or> search_users_modes lib (columns data) (rows data) = []" for handle
  proof -
    from that api have "api = Some handle \<or> search_users_modes lib (columns data) (rows data) = []" by blast
    with r have "r = collect lib handle (search_users_modes lib (columns data) (rows data)) (fetches w)" by blast
    with table show ?thesis by simp
  qed
  with f2 w' show ?thesis by simp
qed

text \<open>
  Claim C3, as the code has it, for the nodes of timelines, replies and search over users.
  A run that returns a table has skipped every row whose \<open>username_twitter\<close> is missing,
  that is \<open>None\<close> or \<open>NaN\<close>, without opening any cursor for it, and has processed
  every other row, an empty string included: the cursors opened are exactly those of the
  requests of the rows that have their key, in the order of the table, and the table returned
  is made of the records those requests collect. Nothing is said here of the nodes of queries
  and hashtags.
\<close>

theorem missing_rows_are_skipped:
  "(extract_user_timelines lib data params w = (Inr table, data', w') \<longrightarrow>
      fetches w' = fetches w @ map fetch_of (timeline_modes (columns data) (rows data))
    \<and> (\<forall>handle. fst (authenticate lib params
                        (py_print ''Starting extraction of User Timelines'' w))
                   = Inr (Some handle)
                 \<or> timeline_modes (columns data) (rows data) = []
         \<longrightarrow> DataFrame (collect lib handle (timeline_modes (columns data) (rows data))
                          (fetches w)) timeline_columns = Inr table))
 \<and> (extract_replies_to_users lib data params w = (Inr table, data', w') \<longrightarrow>
      fetches w' = fetches w @ map fetch_of (replies_modes lib (columns data) (rows data))
    \<and> (\<forall>handle. fst (authenticate lib params
                        (py_print ''Starting extraction of Replies to Users'' w))
                   = Inr (Some handle)
                 \<or> replies_modes lib (columns data) (rows data) = []
         \<longrightarrow> DataFrame (collect lib handle (replies_modes lib (columns data) (rows data))
                          (fetches w)) replies_columns = Inr table))
 \<and> (extract_search_users lib data params w = (Inr table, data', w') \<longrightarrow>
      fetches w' = fetches w @ map fetch_of (search_users_modes lib (columns data) (rows data))
    \<and> (\<forall>handle. fst (authenticate lib params
                        (py_print ''Starting extraction of Search Users'' w))
                   = Inr (Some handle)
                 \<or> search_users_modes lib (columns data) (rows data) = []
         \<longrightarrow> DataFrame (collect lib handle (search_users_modes lib (columns data) (rows data))
                          (fetches w)) search_users_columns = Inr table))"
  by (intro conjI impI extract_user_timelines_run extract_replies_to_users_run
        extract_search_users_run)

text \<open>
  The scenario of claim C3: of the rows of alice and of a missing username, only the first
  is asked for, once.
\<close>

theorem missing_rows_are_skipped_witness:
  "extract_user_timelines (tweepy_library feed_by_key) users_frame stub_params world0
     = (Inr \<lparr>columns = timeline_columns,
             rows = [[PStr ''alice'', PStr ''customer'', PStr ''1456'', PDatetime 1635984000,
                      PStr ''hello #sale'', PInt 3, PInt 1, PList [], PList [],
                      PList [[(''text'', ''sale'')]], PStr ''77'', PStr ''bob'', PBool False,
                      PInt 10, PInt 20, PStr ''San Salvador'']]\<rparr>,
        users_frame,
        \<lparr>stdout = [''Starting extraction of User Timelines'',
                   ''Successfully authenticated with the Twitter API'',
                   ''Extracting username: alice''],
         fetches = [(User_timeline (CStr ''alice'') 200 ''extended'' False False, 10000)]\<rparr>)
   \<and> fetches \<lparr>stdout = [''Starting extraction of User Timelines'',
                   ''Successfully authenticated with the Twitter API'',
                   ''Extracting username: alice''],
         fetches = [(User_timeline (CStr ''alice'') 200 ''extended'' False False, 10000)]\<rparr>
       = fetches world0 @ map fetch_of (timeline_modes (columns users_frame) (rows users_frame))
   \<and> fst (authenticate (tweepy_library feed_by_key) stub_params
             (py_print ''Starting extraction of User Timelines'' world0))
       = Inr (Some stub_handle)
   \<and> DataFrame (collect (tweepy_library feed_by_key) stub_handle
                  (timeline_modes (columns users_frame) (rows users_frame))
                  (fetches world0)) timeline_columns
       = Inr \<lparr>columns = timeline_columns,
             rows = [[PStr ''alice'', PStr ''customer'', PStr ''1456'', PDatetime 1635984000,
                      PStr ''hello #sale'', PInt 3, PInt 1, PList [], PList [],
                      PList [[(''text'', ''sale'')]], PStr ''77'', PStr ''bob'', PBool False,
                      PInt 10, PInt 20, PStr ''San Salvador'']]\<rparr>
   \<and> timeline_modes (columns users_frame) (rows users_frame)
       = [Timeline (CStr ''alice'') (CStr ''customer'') False False]"
proof -
  have run: "extract_user_timelines (tweepy_library feed_by_key) users_frame stub_params world0
     = (Inr \<lparr>columns = timeline_columns,
             rows = [[PStr ''alice'', PStr ''customer'', PStr ''1456'', PDatetime 1635984000,
                      PStr ''hello #sale'', PInt 3, PInt 1, PList [], PList [],
                      PList [[(''text'', ''sale'')]], PStr ''77'', PStr ''bob'', PBool False,
                      PInt 10, PInt 20, PStr ''San Salvador'']]\<rparr>,
        users_frame,
        \<lparr>stdout = [''Starting extraction of User Timelines'',
                   ''Successfully authenticated with the Twitter API'',
                   ''Extracting username: alice''],
         fetches = [(User_timeline (CStr ''alice'') 200 ''extended'' False False, 10000)]\<rparr>)"
    by (simp add: extract_user_timelines_def authenticate_def get_auth_def tweepy_library_def
          users_frame_def stub_params_def world0_def py_print_def open_cursor_def Let_def
          getitem_def extract_tweets_from_user_timeline_def timeline_tuple_def sample_tweet_def
          get_default_def extend_if_def DataFrame_def timeline_columns_def infer_objects_def
          is_missing_def)
  have modes: "timeline_modes (columns users_frame) (rows users_frame)
       = [Timeline (CStr ''alice'') (CStr ''customer'') False False]"
    by (simp add: timeline_modes_def users_frame_def present_def key_of_def getitem_def)
  have auth: "fst (authenticate (tweepy_library feed_by_key) stub_params
             (py_print ''Starting extraction of User Timelines'' world0))
       = Inr (Some stub_handle)"
    by (simp add: authenticate_def get_auth_def tweepy_library_def stub_params_def
          stub_handle_def Let_def)
  note skipped = mp[OF conjunct1[OF missing_rows_are_skipped[of "tweepy_library feed_by_key"
      users_frame stub_params world0]] run]
  note asked = conjunct1[OF skipped]
  note collected = mp[OF spec[OF conjunct2[OF skipped], of stub_handle] disjI1[OF auth]]
  show ?thesis
    by (rule conjI[OF run conjI[OF asked conjI[OF auth conjI[OF collected modes]]]])
qed

text \<open>
  Claim C3 as stated fails: a blank username is asked for like any other; the node of
  queries has no test at all and asks for a missing query, twice; and the node of hashtags
  stops with \<open>AttributeError\<close> on a table with a missing tag, before any row is
  processed.
\<close>

theorem unguarded_rows_counterexample:
  "fetches (snd (snd (extract_user_timelines (tweepy_library feed_by_key) blank_user_frame
                        stub_params world0)))
     = [(User_timeline (CStr []) 200 ''extended'' False False, 10000)]
   \<and> fetches (snd (snd (extract_tweets_from_queries (tweepy_library feed_by_key)
                            missing_query_frame stub_params world0)))
     = [(Search_tweets CNone ''en'' ''extended'' ''mixed'' 200 ''2021-11-04'', 10000),
        (Search_tweets CNone ''en'' ''extended'' ''mixed'' 200 ''2021-11-04'', 10000)]
   \<and> fst (extract_tweets_from_hashtags (tweepy_library feed_by_key) missing_hashtag_frame
            stub_params world0)
     = Inl AttributeError
   \<and> fetches (snd (snd (extract_tweets_from_hashtags (tweepy_library feed_by_key)
                            missing_hashtag_frame stub_params world0)))
     = []"
  by (simp add: extract_user_timelines_def extract_tweets_from_queries_def
        extract_tweets_from_hashtags_def authenticate_def get_auth_def tweepy_library_def
        blank_user_frame_def missing_query_frame_def missing_hashtag_frame_def
        stub_params_def world0_def py_print_def open_cursor_def Let_def getitem_def
        getcolumn_def extract_tweets_from_user_timeline_def extract_tweets_from_search_def
        extend_if_def)

text \<open>
  Claim C4 does not hold of the code. For a row with query \<open>kedro\<close> the node of queries
  opens two cursors with the same language \<open>en\<close> and none with \<open>es\<close>, where the node
  of search over users, its sibling, asks for \<open>en\<close> and then \<open>es\<close>.
\<close>

theorem queries_ask_english_twice:
  "fetches (snd (snd (extract_tweets_from_queries (tweepy_library feed_by_key) queries_frame
                        stub_params world0)))
     = [(Search_tweets (CStr ''kedro'') ''en'' ''extended'' ''mixed'' 200 ''2021-11-04'', 10000),
        (Search_tweets (CStr ''kedro'') ''en'' ''extended'' ''mixed'' 200 ''2021-11-04'', 10000)]
   \<and> fetches (snd (snd (extract_search_users (tweepy_library feed_by_key) users_frame
                            stub_params world0)))
     = [(Search_tweets (CStr ''alice'') ''en'' ''extended'' ''mixed'' 200 ''2021-11-04'', 10000),
        (Search_tweets (CStr ''alice'') ''es'' ''extended'' ''mixed'' 200 ''2021-11-04'', 10000)]"
  by (simp add: extract_tweets_from_queries_def extract_search_users_def authenticate_def
        get_auth_def tweepy_library_def queries_frame_def users_frame_def stub_params_def
        world0_def py_print_def open_cursor_def Let_def getitem_def
        extract_tweets_from_search_def extend_if_def)

section \<open>The input table after a run\<close>

text \<open>
  Columns of a table: a column read back holds, row by row, the cell at the position of its
  label; writing a column that exists replaces those cells, writing a new one appends a
  cell to every row. Writing a column leaves the table as it was exactly when the table
  already held that column with those cells.
\<close>

lemma index_of_less: "k \<in> set cols \<Longrightarrow> index_of k cols < length cols"
  by (induction cols) auto

lemma map_of_zip_index:
  "k \<in> set cols \<Longrightarrow> length row = length cols
   \<Longrightarrow> map_of (zip cols row) k = Some (row ! index_of k cols)"
proof (induction cols arbitrary: row)
  case Nil
  then show ?case by simp
next
  case (Cons c cols)
  then obtain x xs where row: "row = x # xs" by (cases row) auto
  with Cons show ?case by auto
qed

lemma map_of_zip_new:
  "k \<notin> set cols \<Longrightarrow> length row = length cols
   \<Longrightarrow> map_of (zip (cols @ [k]) (row @ [v])) k = Some v"
proof (induction cols arbitrary: row)
  case Nil
  then show ?case by simp
next
  case (Cons c cols)
  then obtain x xs where row: "row = x # xs" by (cases row) auto
  with Cons show ?case by auto
qed

lemma those_eq_Some: "those xs = Some ys \<longleftrightarrow> xs = map Some ys"
proof (induction xs arbitrary: ys)
  case Nil
  then show ?case by auto
next
  case (Cons x xs)
  show ?case
  proof (cases x)
    case None
    then show ?thesis by auto
  next
    case (Some a)
    with Cons show ?thesis by (cases ys) (auto split: option.splits)
  qed
qed

lemma those_map_Some: "those (map Some ys) = Some ys"
  by (simp add: those_eq_Some)

lemma getcolumn_length: "getcolumn df k = Inr vs \<Longrightarrow> length vs = length (rows df)"
proof -
  assume a: "getcolumn df k = Inr vs"
  then have "those (map (\<lambda>row. map_of (zip (columns df) row) k) (rows df)) = Some vs"
    by (auto simp: getcolumn_def split: if_splits option.splits)
  then have "map (\<lambda>row. map_of (zip (columns df) row) k) (rows df) = map Some vs"
    by (simp add: those_eq_Some)
  then have "length (map (\<lambda>row. map_of (zip (columns df) row) k) (rows df)) = length (map Some vs)"
    by simp
  then show ?thesis by simp
qed

lemma getcolumn_iff:
  "getcolumn df k = Inr vs \<longleftrightarrow>
     k \<in> set (columns df) \<and> map (\<lambda>row. map_of (zip (columns df) row) k) (rows df) = map Some vs"
  by (auto simp: getcolumn_def those_eq_Some those_map_Some split: option.splits)

lemma apply_replace_marker:
  "apply_series replace_marker (map CStr tags) = Inr (map stripped tags)"
  by (induction tags) (auto simp: stripped_def)


lemma cell_after_update:
  assumes "k \<in> set cols" and "length row = length cols"
  shows "map_of (zip cols (row[index_of k cols := v])) k = Some v"
proof -
  from assms have "index_of k cols < length row" by (simp add: index_of_less)
  moreover from assms have "map_of (zip cols (row[index_of k cols := v])) k
      = Some ((row[index_of k cols := v]) ! index_of k cols)"
    by (simp add: map_of_zip_index)
  ultimately show ?thesis by simp
qed

lemma column_after_update:
  "k \<in> set cols \<Longrightarrow> list_all (\<lambda>row. length row = length cols) table
   \<Longrightarrow> length vs = length table
   \<Longrightarrow> map (\<lambda>row. map_of (zip cols row) k)
         (map2 (\<lambda>row v. row[index_of k cols := v]) table vs) = map Some vs"
proof (induction table arbitrary: vs)
  case Nil
  then show ?case by simp
next
  case (Cons row table)
  then obtain v vs' where vs: "vs = v # vs'" by (cases vs) auto
  with Cons show ?case by (simp add: cell_after_update)
qed

lemma column_after_append:
  "k \<notin> set cols \<Longrightarrow> list_all (\<lambda>row. length row = length cols) table
   \<Longrightarrow> length vs = length table
   \<Longrightarrow> map (\<lambda>row. map_of (zip (cols @ [k]) row) k)
         (map2 (\<lambda>row v. row @ [v]) table vs) = map Some vs"
proof (induction table arbitrary: vs)
  case Nil
  then show ?case by simp
next
  case (Cons row table)
  then obtain v vs' where vs: "vs = v # vs'" by (cases vs) auto
  from Cons.prems have cell: "map_of (zip (cols @ [k]) (row @ [v])) k = Some v"
    by (intro map_of_zip_new) simp_all
  from Cons.prems vs have "map (\<lambda>row. map_of (zip (cols @ [k]) row) k)
         (map2 (\<lambda>row v. row @ [v]) table vs') = map Some vs'"
    by (intro Cons.IH) simp_all
  with cell vs show ?case by simp
qed

lemma update_same_iff:
  "k \<in> set cols \<Longrightarrow> list_all (\<lambda>row. length row = length cols) table
   \<Longrightarrow> length vs = length table
   \<Longrightarrow> (map2 (\<lambda>row v. row[index_of k cols := v]) table vs = table)
       = (map (\<lambda>row. map_of (zip cols row) k) table = map Some vs)"
proof (induction table arbitrary: vs)
  case Nil
  then show ?case by simp
next
  case (Cons row table)
  then obtain v vs' where vs: "vs = v # vs'" by (cases vs) auto
  from Cons.prems have i: "index_of k cols < length row" by (simp add: index_of_less)
  from Cons.prems have cell: "map_of (zip cols row) k = Some (row ! index_of k cols)"
    by (simp add: map_of_zip_index)
  from Cons.prems vs have IH: "(map2 (\<lambda>row v. row[index_of k cols := v]) table vs' = table)
       = (map (\<lambda>row. map_of (zip cols row) k) table = map Some vs')"
    by (intro Cons.IH) simp_all
  from i have "(row[index_of k cols := v] = row) = (row ! index_of k cols = v)"
    by (rule list_update_same_conv)
  with IH cell vs show ?case by simp
qed

lemma getcolumn_setcolumn:
  assumes wf: "wf_frame df" and len: "length vs = length (rows df)"
  shows "getcolumn (setcolumn df k vs) k = Inr vs"
proof (cases "k \<in> set (columns df)")
  case True
  from True wf len have col: "map (\<lambda>row. map_of (zip (columns df) row) k)
         (map2 (\<lambda>row v. row[index_of k (columns df) := v]) (rows df) vs) = map Some vs"
    by (intro column_after_update) (simp_all add: wf_frame_def)
  from True have "columns (setcolumn df k vs) = columns df"
    and "rows (setcolumn df k vs)
           = map2 (\<lambda>row v. row[index_of k (columns df) := v]) (rows df) vs"
    by (simp_all add: setcolumn_def)
  with True col show ?thesis by (simp add: getcolumn_iff)
next
  case False
  from False wf len have col: "map (\<lambda>row. map_of (zip (columns df @ [k]) row) k)
         (map2 (\<lambda>row v. row @ [v]) (rows df) vs) = map Some vs"
    by (intro column_after_append) (simp_all add: wf_frame_def)
  from False have "columns (setcolumn df k vs) = columns df @ [k]"
    and "rows (setcolumn df k vs) = map2 (\<lambda>row v. row @ [v]) (rows df) vs"
    by (simp_all add: setcolumn_def)
  with col show ?thesis by (simp add: getcolumn_iff)
qed

lemma setcolumn_same_iff:
  assumes wf: "wf_frame df" and len: "length vs = length (rows df)"
  shows "setcolumn df k vs = df \<longleftrightarrow> getcolumn df k = Inr vs"
proof (cases "k \<in> set (columns df)")
  case True
  have same: "(df\<lparr>rows := R\<rparr> = df) = (R = rows df)" for R
    by (cases df) simp
  from True wf len have "(map2 (\<lambda>row v. row[index_of k (columns df) := v]) (rows df) vs = rows df)
       = (map (\<lambda>row. map_of (zip (columns df) row) k) (rows df) = map Some vs)"
    by (intro update_same_iff) (simp_all add: wf_frame_def)
  moreover from True have "setcolumn df k vs
      = df\<lparr>rows := map2 (\<lambda>row v. row[index_of k (columns df) := v]) (rows df) vs\<rparr>"
    by (simp add: setcolumn_def)
  ultimately show ?thesis using True by (simp only: getcolumn_iff same simp_thms)
next
  case False
  have "df\<lparr>columns := columns df @ [k], rows := R\<rparr> \<noteq> df" for R
  proof
    assume "df\<lparr>columns := columns df @ [k], rows := R\<rparr> = df"
    then have "columns (df\<lparr>columns := columns df @ [k], rows := R\<rparr>) = columns df" by simp
    then show False by simp
  qed
  with False show ?thesis by (simp add: getcolumn_iff setcolumn_def)
qed

text \<open>
  The node of hashtags binds \<open>hashtags\<close> to its argument and assigns the column \<open>text\<close>
  of it, so the table its caller holds afterwards is the one with that column written,
  whatever the loop over the rows does next. The four other nodes only read their argument.
\<close>

lemma hashtags_node_frame:
  assumes auth: "fst (authenticate lib params (py_print ''Starting extraction of Hashtags'' w))
                   = Inr api"
    and col: "getcolumn data ''hashtag'' = Inr (map CStr tags)"
  shows "fst (snd (extract_tweets_from_hashtags lib data params w))
           = setcolumn data ''text'' (map stripped tags)"
proof -
  let ?w0 = "py_print ''Starting extraction of Hashtags'' w"
  obtain a w1 where run: "authenticate lib params ?w0 = (a, w1)"
    by (cases "authenticate lib params ?w0")
  with auth have a: "a = Inr api" by simp
  let ?hashtags = "setcolumn data ''text'' (map stripped tags)"
  obtain b w2 where loop: "hashtags_loop lib api (columns ?hashtags) (rows ?hashtags) [] w1 = (b, w2)"
    by (cases "hashtags_loop lib api (columns ?hashtags) (rows ?hashtags) [] w1")
  show ?thesis
    by (cases b)
       (simp_all add: extract_tweets_from_hashtags_def Let_def run a col apply_replace_marker loop)
qed

lemma other_nodes_frame:
  "fst (snd (extract_user_timelines lib data params w)) = data"
  "fst (snd (extract_replies_to_users lib data params w)) = data"
  "fst (snd (extract_search_users lib data params w)) = data"
  "fst (snd (extract_tweets_from_queries lib data params w)) = data"
  by (simp_all add: extract_user_timelines_def extract_replies_to_users_def
        extract_search_users_def extract_tweets_from_queries_def Let_def
        split: prod.splits sum.splits)

text \<open>
  Claim C10, as the code has it. Let the input table be well formed, let authentication
  not raise, and let the column \<open>hashtag\<close> exist and hold strings only. Then the table
  the caller holds after a run of the node of hashtags, whether the loop over the rows
  returns or raises, is the input with its column \<open>text\<close> written, new or overwritten,
  each cell being the tag of its row without its \<open>#\<close> characters. That table differs from
  the one passed in exactly when the input did not already hold those cells in a column
  \<open>text\<close>. The nodes of timelines, replies, search over users and queries leave their
  input table as it was, in every run.
\<close>

theorem hashtags_node_writes_text_column:
  assumes wf: "wf_frame data"
    and auth: "fst (authenticate lib params (py_print ''Starting extraction of Hashtags'' w))
                 = Inr api"
    and col: "getcolumn data ''hashtag'' = Inr (map CStr tags)"
  shows "fst (snd (extract_tweets_from_hashtags lib data params w))
           = setcolumn data ''text'' (map stripped tags)
       \<and> getcolumn (fst (snd (extract_tweets_from_hashtags lib data params w))) ''text''
           = Inr (map stripped tags)
       \<and> (fst (snd (extract_tweets_from_hashtags lib data params w)) = data
            \<longleftrightarrow> getcolumn data ''text'' = Inr (map stripped tags))
       \<and> fst (snd (extract_user_timelines lib' data' params' w')) = data'
       \<and> fst (snd (extract_replies_to_users lib' data' params' w')) = data'
       \<and> fst (snd (extract_search_users lib' data' params' w')) = data'
       \<and> fst (snd (extract_tweets_from_queries lib' data' params' w')) = data'"
proof -
  from getcolumn_length[OF col] have len: "length (map stripped tags) = length (rows data)"
    by simp
  note after = hashtags_node_frame[OF auth col]
  from getcolumn_setcolumn[OF wf len] have written:
    "getcolumn (setcolumn data ''text'' (map stripped tags)) ''text'' = Inr (map stripped tags)" .
  from setcolumn_same_iff[OF wf len] have same:
    "setcolumn data ''text'' (map stripped tags) = data
       \<longleftrightarrow> getcolumn data ''text'' = Inr (map stripped tags)" .
  from written same show ?thesis
    by (simp only: after other_nodes_frame simp_thms)
qed

text \<open>
  The scenario of claim C10: a table with the single tag \<open>#sale\<close> comes back with a second
  column \<open>text\<close> holding \<open>sale\<close>.
\<close>

theorem hashtags_node_writes_text_column_witness:
  "wf_frame hashtags_frame
   \<and> fst (authenticate (tweepy_library feed_by_key) stub_params
            (py_print ''Starting extraction of Hashtags'' world0)) = Inr (Some stub_handle)
   \<and> getcolumn hashtags_frame ''hashtag'' = Inr (map CStr [''#sale''])
   \<and> fst (snd (extract_tweets_from_hashtags (tweepy_library feed_by_key) hashtags_frame
                   stub_params world0))
       = \<lparr>columns = [''hashtag'', ''text''], rows = [[CStr ''#sale'', CStr ''sale'']]\<rparr>
   \<and> fst (snd (extract_tweets_from_hashtags (tweepy_library feed_by_key) hashtags_frame
                   stub_params world0))
       \<noteq> hashtags_frame"
proof -
  have wf: "wf_frame hashtags_frame"
    by (simp add: wf_frame_def hashtags_frame_def)
  have auth: "fst (authenticate (tweepy_library feed_by_key) stub_params
            (py_print ''Starting extraction of Hashtags'' world0)) = Inr (Some stub_handle)"
    by (simp add: authenticate_def get_auth_def tweepy_library_def stub_params_def
          stub_handle_def Let_def)
  have col: "getcolumn hashtags_frame ''hashtag'' = Inr (map CStr [''#sale''])"
    by (simp add: getcolumn_def hashtags_frame_def)
  have written: "setcolumn hashtags_frame ''text'' (map stripped [''#sale''])
       = \<lparr>columns = [''hashtag'', ''text''], rows = [[CStr ''#sale'', CStr ''sale'']]\<rparr>"
    by (simp add: setcolumn_def hashtags_frame_def stripped_def)
  from hashtags_node_writes_text_column[OF wf auth col]
  have after: "fst (snd (extract_tweets_from_hashtags (tweepy_library feed_by_key) hashtags_frame
                   stub_params world0))
       = setcolumn hashtags_frame ''text'' (map stripped [''#sale''])"
    by (rule conjunct1)
  have differs: "\<lparr>columns = [''hashtag'', ''text''], rows = [[CStr ''#sale'', CStr ''sale'']]\<rparr>
       \<noteq> hashtags_frame"
    by (simp add: hashtags_frame_def)
  from wf auth col after written differs show ?thesis by simp
qed

text \<open>
  Claim C10 as stated fails: a table that already holds the stripped tags in its column
  \<open>text\<close> is the same after the run, and a table with a missing tag is left untouched,
  the run stopping with \<open>AttributeError\<close> before the column is assigned.
\<close>

theorem input_unchanged_counterexample:
  "fst (snd (extract_tweets_from_hashtags (tweepy_library feed_by_key) tagged_frame
               stub_params world0))
     = tagged_frame
   \<and> fst (snd (extract_tweets_from_hashtags (tweepy_library feed_by_key) missing_hashtag_frame
                 stub_params world0))
     = missing_hashtag_frame"
proof -
  have auth: "fst (authenticate (tweepy_library feed_by_key) stub_params
            (py_print ''Starting extraction of Hashtags'' world0)) = Inr (Some stub_handle)"
    by (simp add: authenticate_def get_auth_def tweepy_library_def stub_params_def
          stub_handle_def Let_def)
  have col: "getcolumn tagged_frame ''hashtag'' = Inr (map CStr [''#sale''])"
    by (simp add: getcolumn_def tagged_frame_def)
  have same: "setcolumn tagged_frame ''text'' (map stripped [''#sale'']) = tagged_frame"
    by (simp add: setcolumn_def tagged_frame_def stripped_def)
  have tagged: "fst (snd (extract_tweets_from_hashtags (tweepy_library feed_by_key) tagged_frame
               stub_params world0)) = tagged_frame"
    using hashtags_node_frame[OF auth col] same by simp
  have missing: "fst (snd (extract_tweets_from_hashtags (tweepy_library feed_by_key)
               missing_hashtag_frame stub_params world0)) = missing_hashtag_frame"
    by (simp add: extract_tweets_from_hashtags_def authenticate_def get_auth_def
          tweepy_library_def stub_params_def Let_def getcolumn_def missing_hashtag_frame_def
          split: prod.splits sum.splits)
  from tagged missing show ?thesis by (rule conjI)
qed

end
